theory Spec2Isabelle
  imports Main "HOL-Library.Word"
begin

section \<open>JavaScript strings\<close>

text \<open>
  A JavaScript string is a sequence of UTF-16 code units and \<open>s.length\<close> counts code
  units, so a string is a list of 16-bit words and \<open>.length\<close> is \<open>length\<close>. ASCII
  literals of the source are written with \<open>ascii\<close>; the Korean parts of a literal are
  given by their code units.
\<close>

type_synonym jsstring = "16 word list"

definition ascii :: "string \<Rightarrow> jsstring" where
  "ascii s = map (\<lambda>c. of_nat (of_char c)) s"

definition nl :: jsstring where
  "nl = [0x0A]"

text \<open>Truthiness of a possibly undefined string: \<open>undefined\<close> and \<open>""\<close> are falsy.\<close>

fun truthy :: "jsstring option \<Rightarrow> bool" where
  "truthy None = False"
| "truthy (Some s) = (s \<noteq> [])"

text \<open>Decimal rendering of a non-negative integer, as in a template literal.\<close>

fun decimal :: "nat \<Rightarrow> jsstring" where
  "decimal n = (if n < 10 then [of_nat (48 + n)]
                else decimal (n div 10) @ [of_nat (48 + n mod 10)])"

declare decimal.simps [simp del]

section \<open>The speech widget (components/azure/Azure.tsx)\<close>

subsection \<open>The vendor speech SDK as far as the widget uses it\<close>

datatype ResultReason = NoMatch | Canceled | RecognizingSpeech | RecognizedSpeech
  | OtherReason nat

text \<open>
  A recognition result: its reason, its text, and what
  \<open>PronunciationAssessmentResult.fromResult\<close> reads from it. A score the service did
  not send is \<open>None\<close> (\<open>undefined\<close>); the scores are JavaScript numbers, kept abstract
  as \<open>'n\<close>. \<open>Words\<close> is \<open>detailResult?.Words ?? []\<close>: each word with its optional
  accuracy score.
\<close>

record 'n SpeechRecognitionResult =
  reason :: ResultReason
  "text" :: jsstring
  accuracyScore :: "'n option"
  fluencyScore :: "'n option"
  prosodyScore :: "'n option"
  Words :: "(jsstring \<times> 'n option) list"

datatype PronunciationAssessmentGradingSystem = FivePoint | HundredMark

datatype PronunciationAssessmentGranularity = Phoneme | Word_ | FullText

record PronunciationAssessmentConfig =
  referenceText :: jsstring
  gradingSystem :: PronunciationAssessmentGradingSystem
  granularity :: PronunciationAssessmentGranularity
  enableMiscue :: bool
  enableProsodyAssessment :: bool

text \<open>The constructor call \<open>new sdk.PronunciationAssessmentConfig(ref, gs, gr, miscue)\<close>.\<close>

definition new_PronunciationAssessmentConfig ::
  "jsstring \<Rightarrow> PronunciationAssessmentGradingSystem \<Rightarrow> PronunciationAssessmentGranularity
   \<Rightarrow> bool \<Rightarrow> PronunciationAssessmentConfig" where
  "new_PronunciationAssessmentConfig r gs gr m =
     \<lparr>referenceText = r, gradingSystem = gs, granularity = gr, enableMiscue = m,
      enableProsodyAssessment = False\<rparr>"

datatype PropertyId = SpeechServiceConnection_InitialSilenceTimeoutMs
  | SpeechServiceConnection_EndSilenceTimeoutMs

record SpeechConfig =
  subscriptionKey :: jsstring
  serviceRegion :: jsstring
  speechRecognitionLanguage :: jsstring
  properties :: "(PropertyId \<times> jsstring) list"

definition fromSubscription :: "jsstring \<Rightarrow> jsstring \<Rightarrow> SpeechConfig" where
  "fromSubscription k r =
     \<lparr>subscriptionKey = k, serviceRegion = r, speechRecognitionLanguage = [],
      properties = []\<rparr>"

definition setProperty :: "PropertyId \<Rightarrow> jsstring \<Rightarrow> SpeechConfig \<Rightarrow> SpeechConfig" where
  "setProperty p v c = c\<lparr>properties := properties c @ [(p, v)]\<rparr>"

text \<open>
  A recognizer: the speech configuration it was built from and the assessment
  configuration applied to it by \<open>pa.applyTo(recognizer)\<close>, if any.
\<close>

record SpeechRecognizer =
  speechConfig :: SpeechConfig
  appliedAssessment :: "PronunciationAssessmentConfig option"

definition new_SpeechRecognizer :: "SpeechConfig \<Rightarrow> SpeechRecognizer" where
  "new_SpeechRecognizer c = \<lparr>speechConfig = c, appliedAssessment = None\<rparr>"

definition applyTo :: "PronunciationAssessmentConfig \<Rightarrow> SpeechRecognizer \<Rightarrow> SpeechRecognizer" where
  "applyTo pa r = r\<lparr>appliedAssessment := Some pa\<rparr>"

text \<open>
  What the widget does to the outside world, in the order it does it: browser and
  vendor calls, and \<open>alert\<close>.
\<close>

datatype mic_call =
    Call_getUserMedia
  | Call_alert jsstring
  | Call_fromSubscription jsstring jsstring
  | Call_fromDefaultMicrophoneInput
  | Call_new_PronunciationAssessmentConfig PronunciationAssessmentConfig
  | Call_enableProsodyAssessment
  | Call_new_SpeechRecognizer SpeechConfig
  | Call_applyTo PronunciationAssessmentConfig
  | Call_startContinuousRecognitionAsync
  | Call_stopContinuousRecognitionAsync
  | Call_close

subsection \<open>Widget state\<close>

text \<open>
  The two \<open>useState\<close> cells (\<open>log\<close>, \<open>listening\<close>) and the two \<open>useRef\<close> cells
  (\<open>recognizerRef\<close>, \<open>resultsRef\<close>). \<open>log\<close> is what the \<open>pre\<close> element shows.
\<close>

record 'n azure_state =
  log :: jsstring
  listening :: bool
  recognizerRef :: "SpeechRecognizer option"
  resultsRef :: "'n SpeechRecognitionResult list"

definition azure_init :: "'n azure_state" where
  "azure_init = \<lparr>log = [], listening = False, recognizerRef = None, resultsRef = []\<rparr>"

text \<open>\<open>const append = (s) => setLog((p) => p + s + "\n")\<close>\<close>

definition append_log :: "jsstring \<Rightarrow> 'n azure_state \<Rightarrow> 'n azure_state" where
  "append_log s st = st\<lparr>log := log st @ s @ nl\<rparr>"

text \<open>
  The places inside the \<open>try\<close> block of \<open>startMic\<close> where vendor code runs and may
  throw, in the order of the source: the factory and constructor calls, the property
  setters and \<open>applyTo\<close>. \<open>startContinuousRecognitionAsync\<close> is not among them: it
  reports a failure through its error callback.
\<close>

datatype try_step =
    At_fromSubscription
  | At_speechRecognitionLanguage
  | At_setProperty_InitialSilenceTimeoutMs
  | At_setProperty_EndSilenceTimeoutMs
  | At_fromDefaultMicrophoneInput
  | At_new_PronunciationAssessmentConfig
  | At_call_enableProsodyAssessment
  | At_set_enableProsodyAssessment
  | At_new_SpeechRecognizer
  | At_applyTo

text \<open>
  What the surroundings decide in one run of \<open>startMic\<close>: whether \<open>getUserMedia\<close>
  resolves, the two environment variables (absent is \<open>None\<close>), whether this
  version of the vendor SDK has \<open>enableProsodyAssessment\<close> as a method (the optional
  call \<open>?.()\<close> runs only then), and the vendor entry that throws, with the message
  of its error (\<open>None\<close> when every entry returns; after a throw the block is left, so
  one place is enough).
\<close>

record mic_env =
  permission :: bool
  VITE_AZURE_SPEECH_KEY :: "jsstring option"
  VITE_AZURE_SPEECH_REGION :: "jsstring option"
  prosodyIsMethod :: bool
  vendor_fault :: "(try_step \<times> jsstring) option"

text \<open>The alert of \<open>ensureMicPermission\<close> (Korean: please allow the microphone).\<close>

definition MSG_MIC_PERMISSION :: jsstring where
  "MSG_MIC_PERMISSION =
     [0xB9C8, 0xC774, 0xD06C, 0x20, 0xAD8C, 0xD55C, 0xC744, 0x20, 0xD5C8, 0xC6A9, 0xD574,
      0xC8FC, 0xC138, 0xC694, 0x2E]"

text \<open>The message of the error thrown for a missing variable (Korean: check the
  environment variables).\<close>

definition MSG_ENV :: jsstring where
  "MSG_ENV = ascii ''VITE_AZURE_SPEECH_KEY/REGION '' @
     [0xD658, 0xACBD, 0xBCC0, 0xC218, 0xB97C, 0x20, 0xD655, 0xC778, 0xD558, 0xC138, 0xC694,
      0x2E]"

text \<open>The line logged when recognition has started (Korean: speak freely).\<close>

definition MSG_STARTED :: jsstring where
  "MSG_STARTED = ascii ''Continuous recognition started. '' @
     [0xC790, 0xC720, 0xB86D, 0xAC8C, 0x20, 0xB9D0, 0xD558, 0xC138, 0xC694, 0x2E, 0x2E, 0x2E]"

subsection \<open>startMic\<close>

text \<open>
  \<open>ensureMicPermission\<close>: \<open>getUserMedia\<close> is awaited once; when it rejects the user is
  alerted and the result is \<open>false\<close>.
\<close>

definition ensureMicPermission :: "mic_env \<Rightarrow> bool \<times> mic_call list" where
  "ensureMicPermission env =
     (if permission env then (True, [Call_getUserMedia])
      else (False, [Call_getUserMedia, Call_alert MSG_MIC_PERMISSION]))"

text \<open>
  The assessment configuration as \<open>startMic\<close> builds it: the constructor call, the
  optional method call \<open>enableProsodyAssessment?.()\<close>, then the assignment
  \<open>enableProsodyAssessment = true\<close>. Whichever of the two the vendor's version
  honours, prosody assessment ends up enabled.
\<close>

definition build_pa :: "mic_env \<Rightarrow> PronunciationAssessmentConfig" where
  "build_pa env =
     (let pa = new_PronunciationAssessmentConfig [] HundredMark Phoneme False;
          pa = (if prosodyIsMethod env then pa\<lparr>enableProsodyAssessment := True\<rparr> else pa)
      in pa\<lparr>enableProsodyAssessment := True\<rparr>)"

definition build_speechConfig :: "jsstring \<Rightarrow> jsstring \<Rightarrow> SpeechConfig" where
  "build_speechConfig k r =
     (let c = fromSubscription k r;
          c = c\<lparr>speechRecognitionLanguage := ascii ''en-US''\<rparr>;
          c = setProperty SpeechServiceConnection_InitialSilenceTimeoutMs (ascii ''15000'') c
      in setProperty SpeechServiceConnection_EndSilenceTimeoutMs (ascii ''15000'') c)"

text \<open>Whether the vendor entry \<open>st\<close> throws in this run, and with what message.\<close>

definition throws_at :: "mic_env \<Rightarrow> try_step \<Rightarrow> jsstring option" where
  "throws_at env st =
     (case vendor_fault env of
        Some (st', m) \<Rightarrow> if st' = st then Some m else None
      | None \<Rightarrow> None)"

text \<open>
  One vendor entry inside the \<open>try\<close> block. When it throws, the block is left with
  the error, the state reached so far and the calls made so far, this one included;
  otherwise the rest of the block runs.
\<close>

definition attempt ::
  "mic_env \<Rightarrow> try_step \<Rightarrow> 'n azure_state \<Rightarrow> mic_call list
   \<Rightarrow> jsstring option \<times> 'n azure_state \<times> mic_call list
   \<Rightarrow> jsstring option \<times> 'n azure_state \<times> mic_call list" where
  "attempt env st s calls rest =
     (case throws_at env st of Some m \<Rightarrow> (Some m, s, calls) | None \<Rightarrow> rest)"

text \<open>
  The body of the \<open>try\<close> block. The result is the error that leaves the block
  (\<open>Some m\<close> for \<open>throw new Error(m)\<close> or for a vendor error with message \<open>m\<close>;
  \<open>None\<close> when the block runs to its end, which is the call of
  \<open>startContinuousRecognitionAsync\<close>), the state at that point and the calls made.
  \<open>!key || !region\<close> holds for an absent variable and for an empty one. The
  recognizer is stored in \<open>recognizerRef\<close> before \<open>applyTo\<close> changes it, and it is the
  same object afterwards.
\<close>

definition startMic_try ::
  "'n azure_state \<Rightarrow> mic_env \<Rightarrow> jsstring option \<times> 'n azure_state \<times> mic_call list" where
  "startMic_try s env =
     (case (VITE_AZURE_SPEECH_KEY env, VITE_AZURE_SPEECH_REGION env) of
        (Some key, Some region) \<Rightarrow>
          if key = [] \<or> region = [] then (Some MSG_ENV, s, [])
          else
            let speechConfig = build_speechConfig key region;
                pa0 = new_PronunciationAssessmentConfig [] HundredMark Phoneme False;
                pa = build_pa env;
                recognizer = new_SpeechRecognizer speechConfig;
                s1 = s\<lparr>recognizerRef := Some recognizer\<rparr>;
                s2 = s1\<lparr>recognizerRef := Some (applyTo pa recognizer)\<rparr>;
                c1 = [Call_fromSubscription key region];
                c2 = c1 @ [Call_fromDefaultMicrophoneInput];
                c3 = c2 @ [Call_new_PronunciationAssessmentConfig pa0];
                c4 = c3 @ (if prosodyIsMethod env then [Call_enableProsodyAssessment] else []);
                c5 = c4 @ [Call_new_SpeechRecognizer speechConfig];
                c6 = c5 @ [Call_applyTo pa];
                from_assignment =
                  attempt env At_set_enableProsodyAssessment s c4
                 (attempt env At_new_SpeechRecognizer s c5
                 (attempt env At_applyTo s1 c6
                    (None, s2, c6 @ [Call_startContinuousRecognitionAsync])))
            in attempt env At_fromSubscription s c1
              (attempt env At_speechRecognitionLanguage s c1
              (attempt env At_setProperty_InitialSilenceTimeoutMs s c1
              (attempt env At_setProperty_EndSilenceTimeoutMs s c1
              (attempt env At_fromDefaultMicrophoneInput s c2
              (attempt env At_new_PronunciationAssessmentConfig s c3
              (if prosodyIsMethod env
               then attempt env At_call_enableProsodyAssessment s c4 from_assignment
               else from_assignment))))))
      | _ \<Rightarrow> (Some MSG_ENV, s, []))"

text \<open>
  \<open>startMic\<close> up to the point where it has asked the vendor to start: permission
  first; then the log and the buffer are cleared; then the \<open>try\<close> block, whose
  error, thrown by the code itself or by the vendor, is caught and logged. The
  permission request is the only \<open>await\<close>; the state \<open>s\<close> is the one found when it
  settles, and everything after it runs without interruption.
\<close>

definition startMic :: "'n azure_state \<Rightarrow> mic_env \<Rightarrow> 'n azure_state \<times> mic_call list" where
  "startMic s env =
     (let (ok, calls) = ensureMicPermission env in
      if \<not> ok then (s, calls)
      else
        let s = s\<lparr>log := []\<rparr>;
            s = s\<lparr>resultsRef := []\<rparr>
        in case startMic_try s env of
             (Some m, s', calls') \<Rightarrow> (append_log (ascii ''Error: '' @ m) s', calls @ calls')
           | (None, s', calls') \<Rightarrow> (s', calls @ calls'))"

text \<open>The two callbacks given to \<open>startContinuousRecognitionAsync\<close>.\<close>

definition startMic_onStarted :: "'n azure_state \<Rightarrow> 'n azure_state \<times> mic_call list" where
  "startMic_onStarted s = (append_log MSG_STARTED (s\<lparr>listening := True\<rparr>), [])"

definition startMic_onStartError :: "jsstring \<Rightarrow> 'n azure_state \<Rightarrow> 'n azure_state \<times> mic_call list" where
  "startMic_onStartError err s =
     ((append_log (ascii ''Start error: '' @ err) s)\<lparr>recognizerRef := None\<rparr>, [Call_close])"

subsection \<open>The recognizer's event handlers\<close>

definition on_sessionStarted :: "jsstring \<Rightarrow> 'n azure_state \<Rightarrow> 'n azure_state" where
  "on_sessionStarted sessionId s = append_log (ascii ''Session started: '' @ sessionId) s"

text \<open>\<open>recognized\<close>: a result is pushed only when it is recognized speech with a
  non-empty text.\<close>

definition on_recognized :: "'n SpeechRecognitionResult \<Rightarrow> 'n azure_state \<Rightarrow> 'n azure_state" where
  "on_recognized r s =
     (if reason r = RecognizedSpeech \<and> text r \<noteq> []
      then s\<lparr>resultsRef := resultsRef s @ [r]\<rparr> else s)"

text \<open>\<open>canceled\<close>: \<open>e.errorDetails || e.reason\<close>, the reason being a number of the
  vendor's enumeration.\<close>

definition on_canceled :: "jsstring option \<Rightarrow> nat \<Rightarrow> 'n azure_state \<Rightarrow> 'n azure_state" where
  "on_canceled errorDetails creason s =
     append_log (ascii ''Canceled: '' @
       (case errorDetails of
          Some d \<Rightarrow> if d = [] then decimal creason else d
        | None \<Rightarrow> decimal creason)) s"

subsection \<open>processBufferedResults and stopMic\<close>

text \<open>The callback of the reduction: \<open>(a, b) => b.text.length >= a.text.length ? b : a\<close>.\<close>

definition longer :: "'n SpeechRecognitionResult \<Rightarrow> 'n SpeechRecognitionResult \<Rightarrow> 'n SpeechRecognitionResult" where
  "longer a b = (if length (text b) \<ge> length (text a) then b else a)"

text \<open>
  \<open>x ?? "N/A"\<close> inside a template literal; \<open>str\<close> is JavaScript's rendering of a
  number as a string, a parameter of the model.
\<close>

definition orNA :: "('n \<Rightarrow> jsstring) \<Rightarrow> 'n option \<Rightarrow> jsstring" where
  "orNA str x = (case x of None \<Rightarrow> ascii ''N/A'' | Some v \<Rightarrow> str v)"

definition candidates :: "'n azure_state \<Rightarrow> 'n SpeechRecognitionResult list" where
  "candidates s = filter (\<lambda>r. reason r = RecognizedSpeech \<and> text r \<noteq> []) (resultsRef s)"

text \<open>The word-level lines: \<open>forEach((w, idx) => append(`${idx + 1}. ${w.Word}  acc=...`))\<close>.\<close>

definition word_line :: "('n \<Rightarrow> jsstring) \<Rightarrow> nat \<times> jsstring \<times> 'n option \<Rightarrow> jsstring" where
  "word_line str iw =
     (case iw of (idx, w, acc) \<Rightarrow>
        decimal (idx + 1) @ ascii ''. '' @ w @ ascii ''  acc='' @ orNA str acc)"

definition append_words ::
  "('n \<Rightarrow> jsstring) \<Rightarrow> (jsstring \<times> 'n option) list \<Rightarrow> 'n azure_state \<Rightarrow> 'n azure_state" where
  "append_words str ws s =
     foldl (\<lambda>st iw. append_log (word_line str iw) st) s (zip [0..<length ws] ws)"

definition final_header :: "'n SpeechRecognitionResult \<Rightarrow> jsstring" where
  "final_header r = nl @ ascii ''=== FINAL (Unscripted) ==='' @ nl @ ascii ''Text: '' @ text r"

definition score_line :: "('n \<Rightarrow> jsstring) \<Rightarrow> 'n SpeechRecognitionResult \<Rightarrow> jsstring" where
  "score_line str r =
     ascii ''Accuracy='' @ orNA str (accuracyScore r) @ ascii '' | Fluency='' @
     orNA str (fluencyScore r) @ ascii '' | Prosody='' @ orNA str (prosodyScore r)"

text \<open>
  The utterance \<open>processBufferedResults\<close> settles on (its \<open>finalRes\<close>): none when the function returns
  at \<open>candidates.length === 0\<close>; otherwise the value of the reduction, which has no
  initial value, so it starts from the first candidate and folds the callback over
  the rest.
\<close>

definition pick_final :: "'n SpeechRecognitionResult list \<Rightarrow> 'n SpeechRecognitionResult option" where
  "pick_final cands = (case cands of [] \<Rightarrow> None | c # cs \<Rightarrow> Some (foldl longer c cs))"

text \<open>
  \<open>processBufferedResults\<close>. The vendor's \<open>PronunciationAssessmentResult.fromResult\<close>
  is taken to return normally; what it reads are the score fields of the result.
\<close>

definition processBufferedResults :: "('n \<Rightarrow> jsstring) \<Rightarrow> 'n azure_state \<Rightarrow> 'n azure_state" where
  "processBufferedResults str s =
     (case pick_final (candidates s) of
        None \<Rightarrow> append_log (ascii ''No speech captured.'') s
      | Some finalRes \<Rightarrow>
          let s = append_log (final_header finalRes) s;
              s = append_log (score_line str finalRes) s;
              s = append_words str (Words finalRes) s
          in s\<lparr>resultsRef := []\<rparr>)"

text \<open>
  \<open>stopMic\<close> asks the vendor to stop when there is a recognizer; the two callbacks
  follow. The success callback is the only caller of \<open>processBufferedResults\<close>.
\<close>

definition stopMic :: "'n azure_state \<Rightarrow> 'n azure_state \<times> mic_call list" where
  "stopMic s =
     (case recognizerRef s of
        None \<Rightarrow> (s, [])
      | Some r \<Rightarrow> (s, [Call_stopContinuousRecognitionAsync]))"

definition stopMic_onStopped :: "('n \<Rightarrow> jsstring) \<Rightarrow> 'n azure_state \<Rightarrow> 'n azure_state \<times> mic_call list" where
  "stopMic_onStopped str s =
     (let s = append_log (ascii ''Recognition stopped by user.'') s;
          s = processBufferedResults str s;
          s = s\<lparr>recognizerRef := None\<rparr>;
          s = s\<lparr>listening := False\<rparr>
      in (s, [Call_close]))"

definition stopMic_onStopError :: "jsstring \<Rightarrow> 'n azure_state \<Rightarrow> 'n azure_state \<times> mic_call list" where
  "stopMic_onStopError err s = (append_log (ascii ''Stop error: '' @ err) s, [])"

subsection \<open>The speech widget as a transition system\<close>

text \<open>
  Every way the state of the speech widget changes: the two buttons, the callbacks of
  the start and stop requests, and the recognizer's events.
\<close>

datatype 'n mic_event =
    Click_startMic mic_env
  | Started
  | StartError jsstring
  | SessionStarted jsstring
  | Recognized "'n SpeechRecognitionResult"
  | CanceledEvent "jsstring option" nat
  | Click_stopMic
  | Stopped
  | StopError jsstring

fun azure_step :: "('n \<Rightarrow> jsstring) \<Rightarrow> 'n azure_state \<Rightarrow> 'n mic_event \<Rightarrow> 'n azure_state" where
  "azure_step str s (Click_startMic env) = fst (startMic s env)"
| "azure_step str s Started = fst (startMic_onStarted s)"
| "azure_step str s (StartError err) = fst (startMic_onStartError err s)"
| "azure_step str s (SessionStarted sid) = on_sessionStarted sid s"
| "azure_step str s (Recognized r) = on_recognized r s"
| "azure_step str s (CanceledEvent d c) = on_canceled d c s"
| "azure_step str s Click_stopMic = fst (stopMic s)"
| "azure_step str s Stopped = fst (stopMic_onStopped str s)"
| "azure_step str s (StopError err) = fst (stopMic_onStopError err s)"

definition azure_run :: "('n \<Rightarrow> jsstring) \<Rightarrow> 'n azure_state \<Rightarrow> 'n mic_event list \<Rightarrow> 'n azure_state" where
  "azure_run str s evs = foldl (azure_step str) s evs"

text \<open>The word-level lines as they end up in the log.\<close>

definition words_lines :: "('n \<Rightarrow> jsstring) \<Rightarrow> (jsstring \<times> 'n option) list \<Rightarrow> jsstring" where
  "words_lines str ws = concat (map (\<lambda>iw. word_line str iw @ nl) (zip [0..<length ws] ws))"

section \<open>The avatar widget\<close>

text \<open>
  The repository holds the widget twice: \<open>components/klleon/klleon.tsx\<close>, and a second
  copy of the component (source file \<open>part_000\<close>) that adds the \<open>isInitializing\<close>
  state, a guard in \<open>startSDK\<close>, the check of the environment variables and a dialogue
  cursor that does not wrap around. Both are modelled; the definitions of the first
  carry the prefix \<open>klleon_tsx\<close>, those of the second the source's names.
\<close>

subsection \<open>The vendor avatar SDK and the surroundings\<close>

text \<open>A vendor call returns (a promise resolves) or throws (rejects) with a message.\<close>

datatype outcome = Returns | Throws jsstring

text \<open>
  What the surroundings decide while one handler runs: the two build-time variables
  (absent is \<open>None\<close>), whether the vendor object has the optional methods called with
  \<open>?.()\<close>, and how each vendor call ends.
\<close>

record world =
  SDK_KEY :: "jsstring option"
  AVATAR_ID :: "jsstring option"
  has_destroy :: bool
  has_stopSpeech :: bool
  destroy_outcome :: outcome
  stopSpeech_outcome :: outcome
  onStatusEvent_outcome :: outcome
  onChatEvent_outcome :: outcome
  init_outcome :: outcome
  echo_outcome :: outcome

text \<open>
  What a handler does to the outside world, in order. \<open>K_init\<close> carries \<open>sdk_key\<close>
  and \<open>avatar_id\<close>; \<open>K_echo\<close> carries \<open>echoMessages[currentEchoIndex]\<close>, which is
  \<open>undefined\<close> (\<open>None\<close>) out of range; \<open>K_console_error\<close> carries the label and the
  error's message; \<open>K_uncaught\<close> is an exception that leaves the handler.
\<close>

datatype klleon_call =
    K_alert jsstring
  | K_console_log jsstring
  | K_console_error jsstring jsstring
  | K_destroy
  | K_setTimeout nat
  | K_onStatusEvent
  | K_onChatEvent
  | K_init "jsstring option" "jsstring option"
  | K_echo "jsstring option"
  | K_stopSpeech
  | K_uncaught jsstring

text \<open>Where an \<open>async\<close> handler stands when it gives control back.\<close>

datatype pending = Finished | AwaitTimeout | AwaitInit

text \<open>Korean literals of the two files, by their code units.\<close>

definition MSG_START_FIRST :: jsstring where
  \<comment> \<open>please start using it first\<close>
  "MSG_START_FIRST =
     [0xBA3C, 0xC800, 0x20, 0xC0AC, 0xC6A9, 0xC744, 0x20, 0xC2DC, 0xC791, 0xD574, 0xC8FC,
      0xC138, 0xC694, 0x2E]"

definition MSG_ALL_READ :: jsstring where
  \<comment> \<open>all lines have been read; press the from-the-start button to start again\<close>
  "MSG_ALL_READ =
     [0xBAA8, 0xB4E0, 0x20, 0xB300, 0xC0AC, 0xB97C, 0x20, 0xC77D, 0xC5C8, 0xC2B5, 0xB2C8,
      0xB2E4, 0x2E, 0x20, 0x27, 0xCC98, 0xC74C, 0xBD80, 0xD130, 0x27, 0x20, 0xBC84, 0xD2BC,
      0xC744, 0x20, 0xB20C, 0xB7EC, 0xC11C, 0x20, 0xB2E4, 0xC2DC, 0x20, 0xC2DC, 0xC791,
      0xD558, 0xC138, 0xC694, 0x2E]"

definition MSG_KEY_MISSING :: jsstring where
  \<comment> \<open>the API key or the avatar ID is not set\<close>
  "MSG_KEY_MISSING = ascii ''API '' @
     [0xD0A4, 0x20, 0xB610, 0xB294, 0x20, 0xC544, 0xBC14, 0xD0C0, 0x20] @ ascii ''ID'' @
     [0xAC00, 0x20, 0xC124, 0xC815, 0xB418, 0xC9C0, 0x20, 0xC54A, 0xC558, 0xC2B5, 0xB2C8,
      0xB2E4, 0x2E]"

definition LOG_INIT_START :: jsstring where
  "LOG_INIT_START = ascii ''SDK '' @ [0xCD08, 0xAE30, 0xD654, 0x20, 0xC2DC, 0xC791] @ ascii ''...''"

definition LOG_INIT_DONE :: jsstring where
  "LOG_INIT_DONE = ascii ''SDK '' @ [0xCD08, 0xAE30, 0xD654, 0x20, 0xC644, 0xB8CC]"

definition LOG_INIT_FAIL :: jsstring where
  "LOG_INIT_FAIL = ascii ''SDK '' @ [0xCD08, 0xAE30, 0xD654, 0x20, 0xC2E4, 0xD328] @ ascii '':''"

definition LOG_STOP_DONE :: jsstring where
  "LOG_STOP_DONE = ascii ''SDK '' @ [0xC885, 0xB8CC, 0x20, 0xC644, 0xB8CC]"

definition LOG_STOP_FAIL :: jsstring where
  "LOG_STOP_FAIL = ascii ''SDK '' @ [0xC885, 0xB8CC, 0x20, 0xC2E4, 0xD328] @ ascii '':''"

definition LOG_VIDEO_CAN_PLAY :: jsstring where
  "LOG_VIDEO_CAN_PLAY =
     [0xC544, 0xBC14, 0xD0C0, 0x20, 0xC601, 0xC0C1, 0x20, 0xC7AC, 0xC0DD, 0x20, 0xC900,
      0xBE44, 0x20, 0xC644, 0xB8CC, 0x21]"

text \<open>
  The message of the \<open>TypeError\<close> raised by a call \<open>KlleonChat.m()\<close>, written without
  \<open>?.\<close>, when the vendor object has no method \<open>m\<close>.
\<close>

definition not_a_function :: "string \<Rightarrow> jsstring" where
  "not_a_function m = ascii (''KlleonChat.'' @ m @ '' is not a function'')"

text \<open>\<open>xs[i]\<close>: \<open>undefined\<close> out of range.\<close>

definition at_index :: "'a list \<Rightarrow> nat \<Rightarrow> 'a option" where
  "at_index xs i = (if i < length xs then Some (xs ! i) else None)"

subsection \<open>Widget state\<close>

text \<open>
  The \<open>useState\<close> cells of \<open>klleon.tsx\<close>; the second file has one more,
  \<open>isInitializing\<close>. \<open>status\<close> holds the vendor's status string; \<open>echoMessages\<close> is
  the list read from the JSON asset and is never written. The effect hook of the
  component (the video style, and in the second file \<open>destroy\<close> on clean-up) writes
  none of these cells and is left out.
\<close>

record klleon_tsx_state =
  isAvatarSpeaking :: bool
  status :: jsstring
  isSDKInitialized :: bool
  echoMessages :: "jsstring list"
  currentEchoIndex :: nat

record klleon_state = klleon_tsx_state +
  isInitializing :: bool

definition klleon_tsx_init :: "jsstring list \<Rightarrow> klleon_tsx_state" where
  "klleon_tsx_init msgs =
     \<lparr>isAvatarSpeaking = False, status = ascii ''IDLE'', isSDKInitialized = False,
      echoMessages = msgs, currentEchoIndex = 0\<rparr>"

definition klleon_init :: "jsstring list \<Rightarrow> klleon_state" where
  "klleon_init msgs =
     \<lparr>isAvatarSpeaking = False, status = ascii ''IDLE'', isSDKInitialized = False,
      echoMessages = msgs, currentEchoIndex = 0, isInitializing = False\<rparr>"

subsection \<open>The callbacks registered with the vendor (the same in both files)\<close>

definition on_status :: "jsstring \<Rightarrow> 'a klleon_tsx_state_scheme \<Rightarrow> 'a klleon_tsx_state_scheme" where
  "on_status st s = s\<lparr>status := st\<rparr>"

definition on_chat :: "jsstring \<Rightarrow> 'a klleon_tsx_state_scheme \<Rightarrow> 'a klleon_tsx_state_scheme" where
  "on_chat chat_type s =
     (let s = (if chat_type = ascii ''PREPARING_RESPONSE'' then s\<lparr>isAvatarSpeaking := True\<rparr> else s)
      in if chat_type = ascii ''RESPONSE_IS_ENDED'' then s\<lparr>isAvatarSpeaking := False\<rparr> else s)"

subsection \<open>startSDK and stopSDK of the second file\<close>

text \<open>The \<open>catch\<close> block of \<open>startSDK\<close> followed by its \<open>finally\<close> block.\<close>

definition startSDK_failed :: "jsstring \<Rightarrow> klleon_state \<Rightarrow> klleon_state \<times> klleon_call list" where
  "startSDK_failed e s =
     (let s = s\<lparr>status := ascii ''IDLE''\<rparr>;
          s = s\<lparr>isInitializing := False\<rparr>
      in (s, [K_console_error LOG_INIT_FAIL e]))"

text \<open>
  \<open>startSDK\<close> from the click to the first \<open>await\<close>: the guard, then
  \<open>setIsInitializing(true)\<close>, \<open>destroy?.()\<close> and the 100 ms timer.
\<close>

definition startSDK_click :: "klleon_state \<Rightarrow> world \<Rightarrow> klleon_state \<times> klleon_call list \<times> pending" where
  "startSDK_click s w =
     (if isInitializing s \<or> isSDKInitialized s then (s, [], Finished)
      else
        let s = s\<lparr>isInitializing := True\<rparr> in
        if has_destroy w then
          (case destroy_outcome w of
             Throws e \<Rightarrow>
               (case startSDK_failed e s of (s', cs) \<Rightarrow> (s', K_destroy # cs, Finished))
           | Returns \<Rightarrow> (s, [K_destroy, K_setTimeout 100], AwaitTimeout))
        else (s, [K_setTimeout 100], AwaitTimeout))"

text \<open>
  From the timer to the second \<open>await\<close>: the two listeners, the check of the
  variables, the log line and the call of \<open>init\<close>.
\<close>

definition startSDK_afterTimeout :: "klleon_state \<Rightarrow> world \<Rightarrow> klleon_state \<times> klleon_call list \<times> pending" where
  "startSDK_afterTimeout s w =
     (case onStatusEvent_outcome w of
        Throws e \<Rightarrow>
          (case startSDK_failed e s of (s', cs) \<Rightarrow> (s', K_onStatusEvent # cs, Finished))
      | Returns \<Rightarrow>
          (case onChatEvent_outcome w of
             Throws e \<Rightarrow>
               (case startSDK_failed e s of
                  (s', cs) \<Rightarrow> (s', [K_onStatusEvent, K_onChatEvent] @ cs, Finished))
           | Returns \<Rightarrow>
               if \<not> truthy (SDK_KEY w) \<or> \<not> truthy (AVATAR_ID w) then
                 (case startSDK_failed MSG_KEY_MISSING s of
                    (s', cs) \<Rightarrow> (s', [K_onStatusEvent, K_onChatEvent] @ cs, Finished))
               else
                 (s, [K_onStatusEvent, K_onChatEvent, K_console_log LOG_INIT_START,
                      K_init (SDK_KEY w) (AVATAR_ID w)], AwaitInit)))"

text \<open>From the settled \<open>init\<close> to the end.\<close>

definition startSDK_afterInit :: "klleon_state \<Rightarrow> world \<Rightarrow> klleon_state \<times> klleon_call list \<times> pending" where
  "startSDK_afterInit s w =
     (case init_outcome w of
        Returns \<Rightarrow>
          (let s = s\<lparr>isSDKInitialized := True\<rparr>;
               s = s\<lparr>isInitializing := False\<rparr>
           in (s, [K_console_log LOG_INIT_DONE], Finished))
      | Throws e \<Rightarrow> (case startSDK_failed e s of (s', cs) \<Rightarrow> (s', cs, Finished)))"

text \<open>One whole run of \<open>startSDK\<close>, nothing else happening in between.\<close>

definition startSDK :: "klleon_state \<Rightarrow> world \<Rightarrow> klleon_state \<times> klleon_call list" where
  "startSDK s w =
     (case startSDK_click s w of
        (s1, c1, AwaitTimeout) \<Rightarrow>
          (case startSDK_afterTimeout s1 w of
             (s2, c2, AwaitInit) \<Rightarrow>
               (case startSDK_afterInit s2 w of (s3, c3, p) \<Rightarrow> (s3, c1 @ c2 @ c3))
           | (s2, c2, p) \<Rightarrow> (s2, c1 @ c2))
      | (s1, c1, p) \<Rightarrow> (s1, c1))"

text \<open>\<open>stopSDK\<close> of the second file has no \<open>await\<close> inside.\<close>

definition stopSDK :: "klleon_state \<Rightarrow> world \<Rightarrow> klleon_state \<times> klleon_call list" where
  "stopSDK s w =
     (if \<not> isSDKInitialized s then (s, [])
      else
        case (if has_stopSpeech w then (stopSpeech_outcome w, [K_stopSpeech]) else (Returns, [])) of
          (Throws e, c1) \<Rightarrow> (s, c1 @ [K_console_error LOG_STOP_FAIL e])
        | (Returns, c1) \<Rightarrow>
            (case (if has_destroy w then (destroy_outcome w, [K_destroy]) else (Returns, [])) of
               (Throws e, c2) \<Rightarrow> (s, c1 @ c2 @ [K_console_error LOG_STOP_FAIL e])
             | (Returns, c2) \<Rightarrow>
                 (let s = s\<lparr>isSDKInitialized := False\<rparr>;
                      s = s\<lparr>status := ascii ''IDLE''\<rparr>;
                      s = s\<lparr>isAvatarSpeaking := False\<rparr>
                  in (s, c1 @ c2 @ [K_console_log LOG_STOP_DONE]))))"

subsection \<open>The dialogue cursor of the second file\<close>

text \<open>\<open>playNextEcho\<close>, not cyclic: past the last line it alerts and returns.\<close>

definition playNextEcho :: "klleon_state \<Rightarrow> world \<Rightarrow> klleon_state \<times> klleon_call list" where
  "playNextEcho s w =
     (if \<not> isSDKInitialized s then (s, [K_alert MSG_START_FIRST])
      else if length (echoMessages s) > 0 then
        if currentEchoIndex s \<ge> length (echoMessages s) then (s, [K_alert MSG_ALL_READ])
        else
          let messageToSpeak = at_index (echoMessages s) (currentEchoIndex s);
              calls = [K_console_log (ascii ''Speaking:''), K_echo messageToSpeak]
          in case echo_outcome w of
               Throws e \<Rightarrow> (s, calls @ [K_uncaught e])
             | Returns \<Rightarrow> (s\<lparr>currentEchoIndex := currentEchoIndex s + 1\<rparr>, calls)
      else (s, []))"

text \<open>
  \<open>stopSpeech\<close> (the same in both files) calls \<open>KlleonChat.stopSpeech()\<close> without
  \<open>?.\<close> and outside any \<open>try\<close>: on a vendor object without the method no vendor
  call is made and a \<open>TypeError\<close> leaves the handler.
\<close>

definition stopSpeech :: "'a klleon_tsx_state_scheme \<Rightarrow> world \<Rightarrow> 'a klleon_tsx_state_scheme \<times> klleon_call list" where
  "stopSpeech s w =
     (if isSDKInitialized s then
        if \<not> has_stopSpeech w then (s, [K_uncaught (not_a_function ''stopSpeech'')])
        else
          (case stopSpeech_outcome w of
             Throws e \<Rightarrow> (s, [K_stopSpeech, K_uncaught e])
           | Returns \<Rightarrow> (s, [K_stopSpeech]))
      else (s, []))"

definition resetEchoIndex :: "'a klleon_tsx_state_scheme \<Rightarrow> 'a klleon_tsx_state_scheme" where
  "resetEchoIndex s = s\<lparr>currentEchoIndex := 0\<rparr>"

subsection \<open>The operations of \<open>klleon.tsx\<close>\<close>

text \<open>\<open>startSDK\<close> of \<open>klleon.tsx\<close> up to its \<open>await\<close>: no guard and no check of the
  variables.\<close>

definition klleon_tsx_startSDK_click ::
  "klleon_tsx_state \<Rightarrow> world \<Rightarrow> klleon_tsx_state \<times> klleon_call list \<times> pending" where
  "klleon_tsx_startSDK_click s w =
     (case onStatusEvent_outcome w of
        Throws e \<Rightarrow> (s, [K_onStatusEvent, K_console_error LOG_INIT_FAIL e], Finished)
      | Returns \<Rightarrow>
          (case onChatEvent_outcome w of
             Throws e \<Rightarrow>
               (s, [K_onStatusEvent, K_onChatEvent, K_console_error LOG_INIT_FAIL e], Finished)
           | Returns \<Rightarrow>
               (s, [K_onStatusEvent, K_onChatEvent, K_init (SDK_KEY w) (AVATAR_ID w)],
                AwaitInit)))"

definition klleon_tsx_startSDK_afterInit ::
  "klleon_tsx_state \<Rightarrow> world \<Rightarrow> klleon_tsx_state \<times> klleon_call list \<times> pending" where
  "klleon_tsx_startSDK_afterInit s w =
     (case init_outcome w of
        Returns \<Rightarrow> (s\<lparr>isSDKInitialized := True\<rparr>, [K_console_log LOG_INIT_DONE], Finished)
      | Throws e \<Rightarrow> (s, [K_console_error LOG_INIT_FAIL e], Finished))"

text \<open>
  \<open>stopSDK\<close> of \<open>klleon.tsx\<close>: \<open>init\<close> with an empty key is awaited, then
  \<open>destroy\<close>, called without \<open>?.\<close>: on a vendor object without the method the
  \<open>TypeError\<close> is caught like any other error and the state is not reset.
\<close>

definition klleon_tsx_stopSDK_click ::
  "klleon_tsx_state \<Rightarrow> world \<Rightarrow> klleon_tsx_state \<times> klleon_call list \<times> pending" where
  "klleon_tsx_stopSDK_click s w = (s, [K_init (Some []) (AVATAR_ID w)], AwaitInit)"

definition klleon_tsx_stopSDK_afterInit ::
  "klleon_tsx_state \<Rightarrow> world \<Rightarrow> klleon_tsx_state \<times> klleon_call list \<times> pending" where
  "klleon_tsx_stopSDK_afterInit s w =
     (case init_outcome w of
        Throws e \<Rightarrow> (s, [K_console_error LOG_STOP_FAIL e], Finished)
      | Returns \<Rightarrow>
          if \<not> has_destroy w then
            (s, [K_console_error LOG_STOP_FAIL (not_a_function ''destroy'')], Finished)
          else
            (case destroy_outcome w of
               Throws e \<Rightarrow> (s, [K_destroy, K_console_error LOG_STOP_FAIL e], Finished)
             | Returns \<Rightarrow>
                 (let s = s\<lparr>isSDKInitialized := False\<rparr>;
                      s = s\<lparr>status := ascii ''IDLE''\<rparr>;
                      s = s\<lparr>isAvatarSpeaking := False\<rparr>
                  in (s, [K_destroy, K_console_log LOG_STOP_DONE], Finished))))"

text \<open>\<open>playNextEcho\<close> of \<open>klleon.tsx\<close>, cyclic:
  \<open>setCurrentEchoIndex((prevIndex) => (prevIndex + 1) % echoMessages.length)\<close>.\<close>

definition klleon_tsx_playNextEcho ::
  "klleon_tsx_state \<Rightarrow> world \<Rightarrow> klleon_tsx_state \<times> klleon_call list" where
  "klleon_tsx_playNextEcho s w =
     (if \<not> isSDKInitialized s then (s, [K_alert MSG_START_FIRST])
      else if length (echoMessages s) > 0 then
        let messageToSpeak = at_index (echoMessages s) (currentEchoIndex s) in
        case echo_outcome w of
          Throws e \<Rightarrow> (s, [K_echo messageToSpeak, K_uncaught e])
        | Returns \<Rightarrow>
            (s\<lparr>currentEchoIndex := (currentEchoIndex s + 1) mod length (echoMessages s)\<rparr>,
             [K_echo messageToSpeak])
      else (s, []))"

subsection \<open>The widgets as transition systems\<close>

text \<open>
  Every way the state of a widget changes: a handler run from a button, the
  continuation of an \<open>async\<close> handler after an \<open>await\<close>, or a vendor callback.
  Continuations are events of their own, so that anything may happen between the two
  halves of an \<open>async\<close> handler.
\<close>

datatype klleon_event =
    Click_startSDK
  | Timeout_startSDK
  | InitSettled_startSDK
  | Click_stopSDK
  | InitSettled_stopSDK
  | Click_playNextEcho
  | Click_stopSpeech
  | Click_resetEchoIndex
  | StatusEvent jsstring
  | ChatEvent jsstring

text \<open>The second file. Its \<open>stopSDK\<close> has one part only.\<close>

fun klleon_step :: "klleon_state \<Rightarrow> world \<times> klleon_event \<Rightarrow> klleon_state" where
  "klleon_step s (w, Click_startSDK) = fst (startSDK_click s w)"
| "klleon_step s (w, Timeout_startSDK) = fst (startSDK_afterTimeout s w)"
| "klleon_step s (w, InitSettled_startSDK) = fst (startSDK_afterInit s w)"
| "klleon_step s (w, Click_stopSDK) = fst (stopSDK s w)"
| "klleon_step s (w, InitSettled_stopSDK) = s"
| "klleon_step s (w, Click_playNextEcho) = fst (playNextEcho s w)"
| "klleon_step s (w, Click_stopSpeech) = fst (stopSpeech s w)"
| "klleon_step s (w, Click_resetEchoIndex) = resetEchoIndex s"
| "klleon_step s (w, StatusEvent st) = on_status st s"
| "klleon_step s (w, ChatEvent t) = on_chat t s"

text \<open>\<open>klleon.tsx\<close>. Its \<open>startSDK\<close> has no timer.\<close>

fun klleon_tsx_step :: "klleon_tsx_state \<Rightarrow> world \<times> klleon_event \<Rightarrow> klleon_tsx_state" where
  "klleon_tsx_step s (w, Click_startSDK) = fst (klleon_tsx_startSDK_click s w)"
| "klleon_tsx_step s (w, Timeout_startSDK) = s"
| "klleon_tsx_step s (w, InitSettled_startSDK) = fst (klleon_tsx_startSDK_afterInit s w)"
| "klleon_tsx_step s (w, Click_stopSDK) = fst (klleon_tsx_stopSDK_click s w)"
| "klleon_tsx_step s (w, InitSettled_stopSDK) = fst (klleon_tsx_stopSDK_afterInit s w)"
| "klleon_tsx_step s (w, Click_playNextEcho) = fst (klleon_tsx_playNextEcho s w)"
| "klleon_tsx_step s (w, Click_stopSpeech) = fst (stopSpeech s w)"
| "klleon_tsx_step s (w, Click_resetEchoIndex) = resetEchoIndex s"
| "klleon_tsx_step s (w, StatusEvent st) = on_status st s"
| "klleon_tsx_step s (w, ChatEvent t) = on_chat t s"

definition klleon_run :: "klleon_state \<Rightarrow> (world \<times> klleon_event) list \<Rightarrow> klleon_state" where
  "klleon_run s evs = foldl klleon_step s evs"

definition klleon_tsx_run :: "klleon_tsx_state \<Rightarrow> (world \<times> klleon_event) list \<Rightarrow> klleon_tsx_state" where
  "klleon_tsx_run s evs = foldl klleon_tsx_step s evs"


section \<open>Predicates and sample inputs used in the statements\<close>

text \<open>The calls of \<open>init\<close> among the calls of a handler.\<close>

fun is_init :: "klleon_call \<Rightarrow> bool" where
  "is_init (K_init k a) = True"
| "is_init c = False"

text \<open>
  What a user of the avatar widget can see of a handler's calls: an \<open>alert\<close>. Console
  output goes to the developer console, vendor calls show nothing by themselves; the
  page itself is rendered from the state.
\<close>

fun user_visible :: "klleon_call \<Rightarrow> bool" where
  "user_visible (K_alert m) = True"
| "user_visible c = False"

text \<open>In \<open>klleon.tsx\<close> the cursor is a valid index, or zero (the list may be empty).\<close>

definition cursor_in_range :: "klleon_tsx_state \<Rightarrow> bool" where
  "cursor_in_range s = (currentEchoIndex s = 0 \<or> currentEchoIndex s < length (echoMessages s))"

text \<open>A recognized utterance with the given text and accuracy score.\<close>

definition utt :: "string \<Rightarrow> nat \<Rightarrow> nat SpeechRecognitionResult" where
  "utt t a = \<lparr>reason = RecognizedSpeech, text = ascii t, accuracyScore = Some a,
     fluencyScore = Some 80, prosodyScore = None, Words = []\<rparr>"

definition two_utterances :: "nat azure_state" where
  "two_utterances = azure_init\<lparr>resultsRef := [utt ''hello there'' 90, utt ''hi'' 70]\<rparr>"

definition tied_utterances :: "nat azure_state" where
  "tied_utterances = azure_init\<lparr>resultsRef := [utt ''abc'' 90, utt ''xyz'' 70, utt ''no'' 50]\<rparr>"

definition stale_state :: "nat azure_state" where
  "stale_state = two_utterances\<lparr>log := ascii ''Stop error: x''\<rparr>"

definition env_ok :: mic_env where
  "env_ok = \<lparr>permission = True, VITE_AZURE_SPEECH_KEY = Some (ascii ''k1''),
     VITE_AZURE_SPEECH_REGION = Some (ascii ''koreacentral''), prosodyIsMethod = False,
     vendor_fault = None\<rparr>"

definition env_denied :: mic_env where
  "env_denied = env_ok\<lparr>permission := False\<rparr>"

text \<open>A key of one blank: the vendor's \<open>fromSubscription\<close> rejects it.\<close>

definition env_blank_key :: mic_env where
  "env_blank_key = env_ok\<lparr>VITE_AZURE_SPEECH_KEY := Some [0x20],
     vendor_fault := Some (At_fromSubscription, ascii ''throwIfNullOrWhitespace:subscriptionKey'')\<rparr>"

definition env_noregion :: mic_env where
  "env_noregion = env_ok\<lparr>VITE_AZURE_SPEECH_REGION := None\<rparr>"

definition world_ok :: world where
  "world_ok = \<lparr>SDK_KEY = Some (ascii ''sdk-key''), AVATAR_ID = Some (ascii ''avatar-1''),
     has_destroy = True, has_stopSpeech = True, destroy_outcome = Returns,
     stopSpeech_outcome = Returns, onStatusEvent_outcome = Returns,
     onChatEvent_outcome = Returns, init_outcome = Returns, echo_outcome = Returns\<rparr>"

definition world_nokey :: world where
  "world_nokey = world_ok\<lparr>SDK_KEY := None\<rparr>"

definition two_lines :: "jsstring list" where
  "two_lines = [ascii ''Hello'', ascii ''Goodbye'']"

text \<open>Start the SDK, then press the read button three times.\<close>

definition start_and_read :: "(world \<times> klleon_event) list" where
  "start_and_read =
     [(world_ok, Click_startSDK), (world_ok, Timeout_startSDK),
      (world_ok, InitSettled_startSDK), (world_ok, Click_playNextEcho),
      (world_ok, Click_playNextEcho), (world_ok, Click_playNextEcho)]"

section \<open>The speech widget: selection at stop time\<close>

subsection \<open>The reduction\<close>

lemma foldl_longer_mem: "foldl longer c cs \<in> set (c # cs)"
  by (induction cs arbitrary: c) (auto simp: longer_def)

lemma foldl_longer_ge_start: "length (text c) \<le> length (text (foldl longer c cs))"
proof (induction cs arbitrary: c)
  case Nil
  show ?case by simp
next
  case (Cons x xs)
  have "length (text c) \<le> length (text (longer c x))"
    by (simp add: longer_def)
  also have "\<dots> \<le> length (text (foldl longer (longer c x) xs))"
    by (rule Cons.IH)
  finally show ?case by simp
qed

lemma foldl_longer_max:
  "x \<in> set (c # cs) \<Longrightarrow> length (text x) \<le> length (text (foldl longer c cs))"
proof (induction cs arbitrary: c)
  case Nil
  then show ?case by simp
next
  case (Cons y ys)
  show ?case
  proof (cases "x = c")
    case True
    then show ?thesis using foldl_longer_ge_start [of c "y # ys"] by simp
  next
    case False
    with Cons.prems have "x \<in> set (y # ys)" by simp
    then have "x \<in> set (longer c y # ys) \<or> (x = y \<and> longer c y = c)"
      by (auto simp: longer_def)
    then show ?thesis
    proof
      assume "x \<in> set (longer c y # ys)"
      then show ?thesis using Cons.IH [of "longer c y"] by simp
    next
      assume a: "x = y \<and> longer c y = c"
      then have "length (text y) \<le> length (text c)"
        by (auto simp: longer_def split: if_splits)
      with a foldl_longer_ge_start [of c ys] show ?thesis by simp
    qed
  qed
qed

text \<open>Once the fold holds \<open>r\<close>, strictly shorter texts do not replace it.\<close>

lemma foldl_longer_stays:
  "\<forall>x \<in> set post. length (text x) < length (text r) \<Longrightarrow> foldl longer r post = r"
  by (induction post) (auto simp: longer_def)

text \<open>A text at least as long as everything before it replaces what the fold holds.\<close>

lemma foldl_longer_reaches:
  "\<forall>x \<in> set (c # pre). length (text x) \<le> length (text r) \<Longrightarrow>
   foldl longer c (pre @ [r]) = r"
proof (induction pre arbitrary: c)
  case Nil
  then show ?case by (simp add: longer_def)
next
  case (Cons y ys)
  have "\<forall>x \<in> set (longer c y # ys). length (text x) \<le> length (text r)"
    using Cons.prems by (auto simp: longer_def)
  then have "foldl longer (longer c y) (ys @ [r]) = r" by (rule Cons.IH)
  then show ?case by simp
qed

lemma pick_final_last_longest:
  assumes "cands = pre @ r # post"
    and "\<forall>x \<in> set pre. length (text x) \<le> length (text r)"
    and "\<forall>x \<in> set post. length (text x) < length (text r)"
  shows "pick_final cands = Some r"
proof (cases pre)
  case Nil
  with assms show ?thesis by (simp add: pick_final_def foldl_longer_stays)
next
  case (Cons c pre')
  have "foldl longer c (pre' @ [r]) = r"
    using assms(2) Cons by (intro foldl_longer_reaches) simp
  then have "foldl longer c (pre' @ r # post) = r"
    using foldl_longer_stays [OF assms(3)] by simp
  with assms(1) Cons show ?thesis by (simp add: pick_final_def)
qed

lemma pick_final_None_iff: "pick_final cs = None \<longleftrightarrow> cs = []"
  by (simp add: pick_final_def split: list.splits)

lemma pick_final_mem: "pick_final cs = Some r \<Longrightarrow> r \<in> set cs"
  using foldl_longer_mem by (fastforce simp: pick_final_def split: list.splits)

lemma pick_final_max:
  "pick_final cs = Some r \<Longrightarrow> x \<in> set cs \<Longrightarrow> length (text x) \<le> length (text r)"
  using foldl_longer_max by (fastforce simp: pick_final_def split: list.splits)

subsection \<open>What processBufferedResults writes\<close>

lemma foldl_append_log:
  "foldl (\<lambda>st iw. append_log (g iw) st) s xs =
   s\<lparr>log := log s @ concat (map (\<lambda>iw. g iw @ nl) xs)\<rparr>"
  by (induction xs arbitrary: s) (simp_all add: append_log_def)

lemma append_words_eq:
  "append_words str ws s = s\<lparr>log := log s @ words_lines str ws\<rparr>"
  by (simp add: append_words_def words_lines_def foldl_append_log)

lemma candidates_append_log [simp]: "candidates (append_log m s) = candidates s"
  by (simp add: candidates_def append_log_def)

lemma resultsRef_append_log [simp]: "resultsRef (append_log m s) = resultsRef s"
  by (simp add: append_log_def)

lemma processBufferedResults_Some:
  "pick_final (candidates s) = Some r \<Longrightarrow>
   processBufferedResults str s =
     s\<lparr>log := log s @ final_header r @ nl @ score_line str r @ nl @ words_lines str (Words r),
       resultsRef := []\<rparr>"
  by (simp add: processBufferedResults_def append_words_eq append_log_def)

lemma processBufferedResults_None:
  "pick_final (candidates s) = None \<Longrightarrow>
   processBufferedResults str s = s\<lparr>log := log s @ ascii ''No speech captured.'' @ nl\<rparr>"
  by (simp add: processBufferedResults_def append_log_def)

lemma candidates_all:
  "\<forall>r \<in> set (resultsRef s). reason r = RecognizedSpeech \<and> text r \<noteq> [] \<Longrightarrow>
   candidates s = resultsRef s"
  by (simp add: candidates_def)

subsection \<open>What the buffer can hold\<close>

lemma resultsRef_startMic_try [simp]:
  "resultsRef (fst (snd (startMic_try s env))) = resultsRef s"
  by (cases "VITE_AZURE_SPEECH_KEY env"; cases "VITE_AZURE_SPEECH_REGION env")
     (auto simp: startMic_try_def attempt_def Let_def split: option.splits)

lemma resultsRef_startMic_subset:
  "set (resultsRef (fst (startMic s env))) \<subseteq> set (resultsRef s)"
proof (cases "permission env")
  case False
  then show ?thesis by (simp add: startMic_def ensureMicPermission_def)
next
  case True
  obtain e s' cs where r: "startMic_try (s\<lparr>log := [], resultsRef := []\<rparr>) env = (e, s', cs)"
    by (cases "startMic_try (s\<lparr>log := [], resultsRef := []\<rparr>) env") auto
  have "resultsRef (fst (snd (startMic_try (s\<lparr>log := [], resultsRef := []\<rparr>) env))) = []"
    by simp
  with r have "resultsRef s' = []" by simp
  with True r show ?thesis
    by (cases e) (simp_all add: startMic_def ensureMicPermission_def)
qed

lemma resultsRef_processBufferedResults:
  "set (resultsRef (processBufferedResults str s)) \<subseteq> set (resultsRef s)"
  by (cases "pick_final (candidates s)")
     (simp_all add: processBufferedResults_None processBufferedResults_Some)

text \<open>A step adds at most the utterance of a \<open>recognized\<close> event.\<close>

lemma resultsRef_step:
  "set (resultsRef (azure_step str s ev)) \<subseteq>
   set (resultsRef s) \<union> (case ev of Recognized r \<Rightarrow> {r} | _ \<Rightarrow> {})"
proof (cases ev)
  case (Click_startMic env)
  then show ?thesis using resultsRef_startMic_subset [of s env] by simp
next
  case Stopped
  then show ?thesis
    using resultsRef_processBufferedResults
      [of str "append_log (ascii ''Recognition stopped by user.'') s"]
    by (simp add: stopMic_onStopped_def)
qed (auto simp: startMic_onStarted_def startMic_onStartError_def on_sessionStarted_def
      on_recognized_def on_canceled_def stopMic_def stopMic_onStopError_def
      split: option.splits)

lemma resultsRef_run:
  "set (resultsRef (azure_run str s evs)) \<subseteq> set (resultsRef s) \<union> {r. Recognized r \<in> set evs}"
proof (induction evs arbitrary: s)
  case Nil
  show ?case by (simp add: azure_run_def)
next
  case (Cons ev evs)
  have "set (resultsRef (azure_run str (azure_step str s ev) evs))
          \<subseteq> set (resultsRef (azure_step str s ev)) \<union> {r. Recognized r \<in> set evs}"
    by (rule Cons.IH)
  moreover have "set (resultsRef (azure_step str s ev))
          \<subseteq> set (resultsRef s) \<union> {r. Recognized r \<in> set (ev # evs)}"
    using resultsRef_step [of str s ev] by (cases ev) auto
  ultimately show ?case by (auto simp: azure_run_def)
qed

text \<open>
  Whatever happens to the widget, the buffer holds recognized utterances only: the
  \<open>recognized\<close> handler lets nothing else in.
\<close>

lemma buffer_recognized_step:
  assumes "\<forall>u \<in> set (resultsRef s). reason u = RecognizedSpeech \<and> text u \<noteq> []"
  shows "\<forall>u \<in> set (resultsRef (azure_step str s ev)). reason u = RecognizedSpeech \<and> text u \<noteq> []"
proof (cases "\<exists>r. ev = Recognized r")
  case True
  with assms show ?thesis by (auto simp: on_recognized_def split: if_splits)
next
  case False
  then have "set (resultsRef (azure_step str s ev)) \<subseteq> set (resultsRef s)"
    using resultsRef_step [of str s ev] by (cases ev) auto
  with assms show ?thesis by blast
qed

lemma buffer_recognized_run:
  "\<forall>u \<in> set (resultsRef s). reason u = RecognizedSpeech \<and> text u \<noteq> [] \<Longrightarrow>
   \<forall>u \<in> set (resultsRef (azure_run str s evs)). reason u = RecognizedSpeech \<and> text u \<noteq> []"
proof (induction evs arbitrary: s)
  case Nil
  then show ?case by (simp add: azure_run_def)
next
  case (Cons ev evs)
  from Cons.prems
  have "\<forall>u \<in> set (resultsRef (azure_step str s ev)). reason u = RecognizedSpeech \<and> text u \<noteq> []"
    by (rule buffer_recognized_step)
  then have "\<forall>u \<in> set (resultsRef (azure_run str (azure_step str s ev) evs)).
               reason u = RecognizedSpeech \<and> text u \<noteq> []"
    by (rule Cons.IH)
  then show ?case by (simp add: azure_run_def)
qed

lemma buffer_recognized_reachable:
  "\<forall>u \<in> set (resultsRef (azure_run str azure_init evs)). reason u = RecognizedSpeech \<and> text u \<noteq> []"
  by (rule buffer_recognized_run) (simp add: azure_init_def)

subsection \<open>The claims about selection\<close>

text \<open>
  Claim C1. When the stop callback of \<open>stopMic\<close> runs on a non-empty buffer of
  recognized utterances, exactly one buffered utterance is selected; its text is at
  least as long as the text of every buffered utterance; and what is appended to the
  log after the stop line is the block for that utterance: its text, then its
  accuracy, fluency and prosody scores, then its word lines.
\<close>

theorem C1_longest_utterance_reported:
  assumes nonempty: "resultsRef s \<noteq> []"
    and recognized: "\<forall>u \<in> set (resultsRef s). reason u = RecognizedSpeech \<and> text u \<noteq> []"
  shows "\<exists>r \<in> set (resultsRef s).
           (\<forall>u \<in> set (resultsRef s). length (text u) \<le> length (text r)) \<and>
           pick_final (candidates s) = Some r \<and>
           log (fst (stopMic_onStopped str s)) =
             log s @ ascii ''Recognition stopped by user.'' @ nl @
             nl @ ascii ''=== FINAL (Unscripted) ==='' @ nl @ ascii ''Text: '' @ text r @ nl @
             ascii ''Accuracy='' @ orNA str (accuracyScore r) @
             ascii '' | Fluency='' @ orNA str (fluencyScore r) @
             ascii '' | Prosody='' @ orNA str (prosodyScore r) @ nl @
             words_lines str (Words r)"
proof -
  let ?s1 = "append_log (ascii ''Recognition stopped by user.'') s"
  have cands: "candidates ?s1 = resultsRef s"
    using recognized by (simp add: candidates_all)
  with nonempty obtain r where r: "pick_final (candidates ?s1) = Some r"
    using pick_final_None_iff [of "candidates ?s1"] by fastforce
  have mem: "r \<in> set (resultsRef s)"
    using pick_final_mem [OF r] cands by simp
  have mx: "\<forall>u \<in> set (resultsRef s). length (text u) \<le> length (text r)"
    using pick_final_max [OF r] cands by simp
  have "log (fst (stopMic_onStopped str s)) =
          log ?s1 @ final_header r @ nl @ score_line str r @ nl @ words_lines str (Words r)"
    by (simp add: stopMic_onStopped_def processBufferedResults_Some [OF r])
  then have lg: "log (fst (stopMic_onStopped str s)) =
             log s @ ascii ''Recognition stopped by user.'' @ nl @
             nl @ ascii ''=== FINAL (Unscripted) ==='' @ nl @ ascii ''Text: '' @ text r @ nl @
             ascii ''Accuracy='' @ orNA str (accuracyScore r) @
             ascii '' | Fluency='' @ orNA str (fluencyScore r) @
             ascii '' | Prosody='' @ orNA str (prosodyScore r) @ nl @
             words_lines str (Words r)"
    by (simp add: append_log_def final_header_def score_line_def)
  from r have "pick_final (candidates s) = Some r" by simp
  with mem mx lg show ?thesis by blast
qed

text \<open>The theorem at a buffer of two utterances, the first the longer one: the first
  is selected and reported.\<close>

theorem C1_witness:
  "resultsRef two_utterances = [utt ''hello there'' 90, utt ''hi'' 70] \<and>
   pick_final (candidates two_utterances) = Some (utt ''hello there'' 90) \<and>
   log (fst (stopMic_onStopped decimal two_utterances)) =
     ascii ''Recognition stopped by user.'' @ nl @
     nl @ ascii ''=== FINAL (Unscripted) ==='' @ nl @ ascii ''Text: hello there'' @ nl @
     ascii ''Accuracy='' @ decimal 90 @ ascii '' | Fluency='' @ decimal 80 @
     ascii '' | Prosody=N/A'' @ nl"
proof -
  have buf: "resultsRef two_utterances = [utt ''hello there'' 90, utt ''hi'' 70]"
    by (simp add: two_utterances_def)
  have h1: "resultsRef two_utterances \<noteq> []"
    by (simp add: buf)
  have h2: "\<forall>u \<in> set (resultsRef two_utterances). reason u = RecognizedSpeech \<and> text u \<noteq> []"
    by (simp add: buf utt_def ascii_def)
  from C1_longest_utterance_reported [OF h1 h2, of decimal]
  obtain r where r: "r \<in> set (resultsRef two_utterances)"
    and mx: "\<forall>u \<in> set (resultsRef two_utterances). length (text u) \<le> length (text r)"
    and sel: "pick_final (candidates two_utterances) = Some r"
    and lg: "log (fst (stopMic_onStopped decimal two_utterances)) =
             log two_utterances @ ascii ''Recognition stopped by user.'' @ nl @
             nl @ ascii ''=== FINAL (Unscripted) ==='' @ nl @ ascii ''Text: '' @ text r @ nl @
             ascii ''Accuracy='' @ orNA decimal (accuracyScore r) @
             ascii '' | Fluency='' @ orNA decimal (fluencyScore r) @
             ascii '' | Prosody='' @ orNA decimal (prosodyScore r) @ nl @
             words_lines decimal (Words r)"
    by blast
  from mx have "length (text (utt ''hello there'' 90)) \<le> length (text r)"
    by (simp add: buf)
  with r have req: "r = utt ''hello there'' 90"
    by (auto simp: buf utt_def ascii_def)
  have "log two_utterances = []"
    by (simp add: two_utterances_def azure_init_def)
  with lg req have "log (fst (stopMic_onStopped decimal two_utterances)) =
     ascii ''Recognition stopped by user.'' @ nl @
     nl @ ascii ''=== FINAL (Unscripted) ==='' @ nl @ ascii ''Text: hello there'' @ nl @
     ascii ''Accuracy='' @ decimal 90 @ ascii '' | Fluency='' @ decimal 80 @
     ascii '' | Prosody=N/A'' @ nl"
    by (simp add: utt_def orNA_def words_lines_def ascii_def)
  with buf sel req show ?thesis by simp
qed

text \<open>
  Claim C6. When the buffer holds no recognized utterance as the stop callback runs,
  nothing is selected, and the callback appends the stop line and the line
  \<open>No speech captured.\<close> to the log and nothing else: no final utterance and no
  scores. It then closes the recognizer and leaves the listening state.
\<close>

theorem C6_no_speech_captured:
  assumes "candidates s = []"
  shows "pick_final (candidates s) = None \<and>
         stopMic_onStopped str s =
           (s\<lparr>log := log s @ ascii ''Recognition stopped by user.'' @ nl @
                       ascii ''No speech captured.'' @ nl,
              recognizerRef := None, listening := False\<rparr>,
            [Call_close])"
proof -
  let ?s1 = "append_log (ascii ''Recognition stopped by user.'') s"
  have none: "pick_final (candidates ?s1) = None"
    using assms by (simp add: pick_final_None_iff)
  have "stopMic_onStopped str s =
          ((processBufferedResults str ?s1)\<lparr>recognizerRef := None, listening := False\<rparr>,
           [Call_close])"
    by (simp add: stopMic_onStopped_def)
  also have "processBufferedResults str ?s1 =
          ?s1\<lparr>log := log ?s1 @ ascii ''No speech captured.'' @ nl\<rparr>"
    by (rule processBufferedResults_None [OF none])
  finally show ?thesis
    using assms by (simp add: append_log_def pick_final_None_iff)
qed

text \<open>The theorem at the initial state, whose buffer is empty.\<close>

theorem C6_witness:
  "candidates (azure_init :: nat azure_state) = [] \<and>
   log (fst (stopMic_onStopped decimal (azure_init :: nat azure_state))) =
     ascii ''Recognition stopped by user.'' @ nl @ ascii ''No speech captured.'' @ nl"
proof -
  have h: "candidates (azure_init :: nat azure_state) = []"
    by (simp add: candidates_def azure_init_def)
  from C6_no_speech_captured [OF h, of decimal] h show ?thesis
    by (simp add: azure_init_def)
qed

text \<open>
  Claim C9. Among the candidates, the one selected is the last of those with the
  greatest text length: when every candidate before \<open>r\<close> has a text no longer than
  that of \<open>r\<close> (ties included) and every candidate after \<open>r\<close> has a strictly
  shorter text, \<open>processBufferedResults\<close> selects \<open>r\<close> and reports it.
\<close>

theorem C9_tie_latest_wins:
  assumes split: "candidates s = pre @ r # post"
    and before: "\<forall>u \<in> set pre. length (text u) \<le> length (text r)"
    and after: "\<forall>u \<in> set post. length (text u) < length (text r)"
  shows "pick_final (candidates s) = Some r \<and>
         processBufferedResults str s =
           s\<lparr>log := log s @ final_header r @ nl @ score_line str r @ nl @
                       words_lines str (Words r),
             resultsRef := []\<rparr>"
proof -
  have sel: "pick_final (candidates s) = Some r"
    using split before after by (rule pick_final_last_longest)
  with processBufferedResults_Some [OF sel, of str] show ?thesis by simp
qed

text \<open>The theorem at three utterances, the first two of the same greatest length:
  the second is selected.\<close>

theorem C9_witness:
  "candidates tied_utterances = [utt ''abc'' 90] @ utt ''xyz'' 70 # [utt ''no'' 50] \<and>
   length (text (utt ''abc'' 90)) = length (text (utt ''xyz'' 70)) \<and>
   pick_final (candidates tied_utterances) = Some (utt ''xyz'' 70)"
proof -
  have h1: "candidates tied_utterances = [utt ''abc'' 90] @ utt ''xyz'' 70 # [utt ''no'' 50]"
    by (simp add: tied_utterances_def candidates_def utt_def ascii_def)
  have h2: "\<forall>u \<in> set [utt ''abc'' 90]. length (text u) \<le> length (text (utt ''xyz'' 70))"
    by (simp add: utt_def ascii_def)
  have h3: "\<forall>u \<in> set [utt ''no'' 50]. length (text u) < length (text (utt ''xyz'' 70))"
    by (simp add: utt_def ascii_def)
  from C9_tie_latest_wins [OF h1 h2 h3, of decimal] h1 show ?thesis
    by (simp add: utt_def ascii_def)
qed

section \<open>The speech widget: starting a session\<close>

lemma startMic_denied:
  "\<not> permission env \<Longrightarrow>
   startMic s env = (s, [Call_getUserMedia, Call_alert MSG_MIC_PERMISSION])"
  by (simp add: startMic_def ensureMicPermission_def)

lemma startMic_try_missing:
  "\<not> truthy (VITE_AZURE_SPEECH_KEY env) \<or> \<not> truthy (VITE_AZURE_SPEECH_REGION env) \<Longrightarrow>
   startMic_try s env = (Some MSG_ENV, s, [])"
  by (cases "VITE_AZURE_SPEECH_KEY env"; cases "VITE_AZURE_SPEECH_REGION env")
     (auto simp: startMic_try_def)

lemma build_pa_eq:
  "build_pa env = \<lparr>referenceText = [], gradingSystem = HundredMark, granularity = Phoneme,
      enableMiscue = False, enableProsodyAssessment = True\<rparr>"
  by (simp add: build_pa_def new_PronunciationAssessmentConfig_def Let_def)

text \<open>The \<open>try\<close> block when no vendor entry throws.\<close>

lemma startMic_try_present:
  "VITE_AZURE_SPEECH_KEY env = Some k \<Longrightarrow> VITE_AZURE_SPEECH_REGION env = Some g \<Longrightarrow>
   k \<noteq> [] \<Longrightarrow> g \<noteq> [] \<Longrightarrow> vendor_fault env = None \<Longrightarrow>
   startMic_try s env =
     (None,
      s\<lparr>recognizerRef :=
              Some (applyTo (build_pa env) (new_SpeechRecognizer (build_speechConfig k g)))\<rparr>,
      [Call_fromSubscription k g, Call_fromDefaultMicrophoneInput,
       Call_new_PronunciationAssessmentConfig
         (new_PronunciationAssessmentConfig [] HundredMark Phoneme False)] @
      (if prosodyIsMethod env then [Call_enableProsodyAssessment] else []) @
      [Call_new_SpeechRecognizer (build_speechConfig k g), Call_applyTo (build_pa env),
       Call_startContinuousRecognitionAsync])"
  by (simp add: startMic_try_def attempt_def throws_at_def Let_def)

text \<open>It runs to its end only in this way, whatever the vendor does.\<close>

lemma startMic_try_completed:
  assumes "startMic_try s env = (None, s', cs)"
  shows "\<exists>k g. VITE_AZURE_SPEECH_KEY env = Some k \<and> VITE_AZURE_SPEECH_REGION env = Some g \<and>
           k \<noteq> [] \<and> g \<noteq> [] \<and>
           s' = s\<lparr>recognizerRef :=
              Some (applyTo (build_pa env) (new_SpeechRecognizer (build_speechConfig k g)))\<rparr> \<and>
           cs = [Call_fromSubscription k g, Call_fromDefaultMicrophoneInput,
                 Call_new_PronunciationAssessmentConfig
                   (new_PronunciationAssessmentConfig [] HundredMark Phoneme False)] @
                (if prosodyIsMethod env then [Call_enableProsodyAssessment] else []) @
                [Call_new_SpeechRecognizer (build_speechConfig k g), Call_applyTo (build_pa env),
                 Call_startContinuousRecognitionAsync]"
  using assms
  by (cases "VITE_AZURE_SPEECH_KEY env"; cases "VITE_AZURE_SPEECH_REGION env")
     (auto simp: startMic_try_def attempt_def Let_def split: if_splits option.splits)

text \<open>When an error leaves the block, the start call has not been made; the log, the
  buffer and the listening flag are untouched; and what was constructed or applied
  before the error is the unscripted configuration.\<close>

lemma startMic_try_failed:
  assumes "startMic_try s env = (Some m, s', cs)"
  shows "Call_startContinuousRecognitionAsync \<notin> set cs \<and>
         log s' = log s \<and> resultsRef s' = resultsRef s \<and> listening s' = listening s \<and>
         (\<forall>pa. Call_new_PronunciationAssessmentConfig pa \<in> set cs \<longrightarrow>
            pa = new_PronunciationAssessmentConfig [] HundredMark Phoneme False) \<and>
         (\<forall>pa. Call_applyTo pa \<in> set cs \<longrightarrow> pa = build_pa env)"
  using assms
  by (cases "VITE_AZURE_SPEECH_KEY env"; cases "VITE_AZURE_SPEECH_REGION env")
     (auto simp: startMic_try_def attempt_def Let_def split: if_splits option.splits)

lemma startMic_missing:
  assumes "\<not> truthy (VITE_AZURE_SPEECH_KEY env) \<or> \<not> truthy (VITE_AZURE_SPEECH_REGION env)"
  shows "startMic s env =
     (if permission env
      then (s\<lparr>log := ascii ''Error: '' @ MSG_ENV @ nl, resultsRef := []\<rparr>, [Call_getUserMedia])
      else (s, [Call_getUserMedia, Call_alert MSG_MIC_PERMISSION]))"
  using startMic_try_missing [OF assms, of "s\<lparr>log := [], resultsRef := []\<rparr>"]
  by (simp add: startMic_def ensureMicPermission_def append_log_def)

text \<open>\<open>startMic\<close> in terms of its \<open>try\<close> block, once permission is given.\<close>

lemma startMic_permitted:
  "permission env \<Longrightarrow>
   startMic s env =
     (case startMic_try (s\<lparr>log := [], resultsRef := []\<rparr>) env of
        (Some m, s', cs) \<Rightarrow> (append_log (ascii ''Error: '' @ m) s', Call_getUserMedia # cs)
      | (None, s', cs) \<Rightarrow> (s', Call_getUserMedia # cs))"
  by (simp add: startMic_def ensureMicPermission_def split: prod.splits option.splits)

text \<open>Recognition is asked to start only with permission and both variables set and
  after every vendor entry has returned; the whole run is then determined.\<close>

lemma startMic_started:
  assumes "Call_startContinuousRecognitionAsync \<in> set (snd (startMic s env))"
  shows "\<exists>k g. permission env \<and> VITE_AZURE_SPEECH_KEY env = Some k \<and> k \<noteq> [] \<and>
           VITE_AZURE_SPEECH_REGION env = Some g \<and> g \<noteq> [] \<and>
           startMic s env =
             (s\<lparr>log := [], resultsRef := [],
                recognizerRef :=
                  Some (applyTo (build_pa env) (new_SpeechRecognizer (build_speechConfig k g)))\<rparr>,
              [Call_getUserMedia, Call_fromSubscription k g, Call_fromDefaultMicrophoneInput,
               Call_new_PronunciationAssessmentConfig
                 (new_PronunciationAssessmentConfig [] HundredMark Phoneme False)] @
              (if prosodyIsMethod env then [Call_enableProsodyAssessment] else []) @
              [Call_new_SpeechRecognizer (build_speechConfig k g), Call_applyTo (build_pa env),
               Call_startContinuousRecognitionAsync])"
proof -
  have perm: "permission env"
    using assms by (cases "permission env") (simp_all add: startMic_denied)
  obtain e s' cs where r: "startMic_try (s\<lparr>log := [], resultsRef := []\<rparr>) env = (e, s', cs)"
    by (cases "startMic_try (s\<lparr>log := [], resultsRef := []\<rparr>) env") auto
  show ?thesis
  proof (cases e)
    case (Some m)
    with r startMic_try_failed [of "s\<lparr>log := [], resultsRef := []\<rparr>" env m s' cs]
    have "Call_startContinuousRecognitionAsync \<notin> set cs" by simp
    with assms perm r Some show ?thesis by (simp add: startMic_permitted)
  next
    case None
    with r startMic_try_completed [of "s\<lparr>log := [], resultsRef := []\<rparr>" env s' cs]
    obtain k g where kg: "VITE_AZURE_SPEECH_KEY env = Some k" "VITE_AZURE_SPEECH_REGION env = Some g"
        "k \<noteq> []" "g \<noteq> []"
        "s' = s\<lparr>log := [], resultsRef := [], recognizerRef :=
              Some (applyTo (build_pa env) (new_SpeechRecognizer (build_speechConfig k g)))\<rparr>"
        "cs = [Call_fromSubscription k g, Call_fromDefaultMicrophoneInput,
                 Call_new_PronunciationAssessmentConfig
                   (new_PronunciationAssessmentConfig [] HundredMark Phoneme False)] @
                (if prosodyIsMethod env then [Call_enableProsodyAssessment] else []) @
                [Call_new_SpeechRecognizer (build_speechConfig k g), Call_applyTo (build_pa env),
                 Call_startContinuousRecognitionAsync]"
      by auto
    with perm r None show ?thesis by (simp add: startMic_permitted)
  qed
qed

text \<open>With permission, both variables set and no vendor error, it is asked to
  start.\<close>

lemma startMic_starts:
  assumes "permission env" "truthy (VITE_AZURE_SPEECH_KEY env)"
    "truthy (VITE_AZURE_SPEECH_REGION env)" "vendor_fault env = None"
  shows "Call_startContinuousRecognitionAsync \<in> set (snd (startMic s env))"
proof -
  from assms(2,3) obtain k g where kg: "VITE_AZURE_SPEECH_KEY env = Some k" "k \<noteq> []"
      "VITE_AZURE_SPEECH_REGION env = Some g" "g \<noteq> []"
    by (cases "VITE_AZURE_SPEECH_KEY env"; cases "VITE_AZURE_SPEECH_REGION env") auto
  from startMic_try_present [OF kg(1) kg(3) kg(2) kg(4) assms(4), of "s\<lparr>log := [], resultsRef := []\<rparr>"]
  show ?thesis using assms(1) by (simp add: startMic_permitted)
qed

text \<open>Whatever the vendor does, the configurations that \<open>startMic\<close> constructs and
  applies are the unscripted ones.\<close>

lemma startMic_configurations:
  "(\<forall>pa. Call_new_PronunciationAssessmentConfig pa \<in> set (snd (startMic s env)) \<longrightarrow>
      pa = new_PronunciationAssessmentConfig [] HundredMark Phoneme False) \<and>
   (\<forall>pa. Call_applyTo pa \<in> set (snd (startMic s env)) \<longrightarrow> pa = build_pa env)"
proof (cases "permission env")
  case False
  then show ?thesis by (simp add: startMic_denied)
next
  case True
  obtain e s' cs where r: "startMic_try (s\<lparr>log := [], resultsRef := []\<rparr>) env = (e, s', cs)"
    by (cases "startMic_try (s\<lparr>log := [], resultsRef := []\<rparr>) env") auto
  show ?thesis
  proof (cases e)
    case (Some m)
    with r startMic_try_failed [of "s\<lparr>log := [], resultsRef := []\<rparr>" env m s' cs]
    show ?thesis using True by (simp add: startMic_permitted)
  next
    case None
    with r startMic_try_completed [of "s\<lparr>log := [], resultsRef := []\<rparr>" env s' cs]
    show ?thesis using True by (auto simp: startMic_permitted)
  qed
qed

text \<open>The catch path at a key the vendor rejects: the vendor's error is logged, no
  configuration is built and nothing is started.\<close>

lemma startMic_blank_key:
  "startMic (azure_init :: nat azure_state) env_blank_key =
     (azure_init\<lparr>log := ascii ''Error: '' @
                   ascii ''throwIfNullOrWhitespace:subscriptionKey'' @ nl\<rparr>,
      [Call_getUserMedia, Call_fromSubscription [0x20] (ascii ''koreacentral'')])"
  by (simp add: startMic_def ensureMicPermission_def startMic_try_def attempt_def throws_at_def
      env_blank_key_def env_ok_def azure_init_def append_log_def Let_def ascii_def)

text \<open>
  Claim C5. Whatever the vendor's calls do, an assessment configuration that
  \<open>startMic\<close> constructs has empty reference text, the hundred-mark grading system,
  phoneme granularity and miscue off, and a configuration it applies is that one with
  prosody assessment enabled. Whenever \<open>startMic\<close> asks the vendor to start
  continuous recognition, it has made these calls in this order before: the
  configuration constructed, prosody assessment enabled, the recognizer constructed,
  the configuration applied to it; the start call is the last one, and the recognizer
  kept carries the configuration. And it does ask the vendor to start when permission
  is given, both variables are set and the vendor's calls return.
\<close>

theorem C5_unscripted_assessment_config:
  "(\<forall>pa. Call_new_PronunciationAssessmentConfig pa \<in> set (snd (startMic s env)) \<longrightarrow>
      pa = \<lparr>referenceText = [], gradingSystem = HundredMark, granularity = Phoneme,
             enableMiscue = False, enableProsodyAssessment = False\<rparr>) \<and>
   (\<forall>pa. Call_applyTo pa \<in> set (snd (startMic s env)) \<longrightarrow>
      pa = \<lparr>referenceText = [], gradingSystem = HundredMark, granularity = Phoneme,
             enableMiscue = False, enableProsodyAssessment = True\<rparr>) \<and>
   (Call_startContinuousRecognitionAsync \<in> set (snd (startMic s env)) \<longrightarrow>
      (\<exists>k g. VITE_AZURE_SPEECH_KEY env = Some k \<and> VITE_AZURE_SPEECH_REGION env = Some g \<and>
         snd (startMic s env) =
           [Call_getUserMedia, Call_fromSubscription k g, Call_fromDefaultMicrophoneInput,
            Call_new_PronunciationAssessmentConfig
              \<lparr>referenceText = [], gradingSystem = HundredMark, granularity = Phoneme,
               enableMiscue = False, enableProsodyAssessment = False\<rparr>] @
           (if prosodyIsMethod env then [Call_enableProsodyAssessment] else []) @
           [Call_new_SpeechRecognizer (build_speechConfig k g),
            Call_applyTo
              \<lparr>referenceText = [], gradingSystem = HundredMark, granularity = Phoneme,
               enableMiscue = False, enableProsodyAssessment = True\<rparr>,
            Call_startContinuousRecognitionAsync]) \<and>
      map_option appliedAssessment (recognizerRef (fst (startMic s env))) =
        Some (Some \<lparr>referenceText = [], gradingSystem = HundredMark,
                granularity = Phoneme, enableMiscue = False, enableProsodyAssessment = True\<rparr>)) \<and>
   (permission env \<and> truthy (VITE_AZURE_SPEECH_KEY env) \<and>
    truthy (VITE_AZURE_SPEECH_REGION env) \<and> vendor_fault env = None \<longrightarrow>
      Call_startContinuousRecognitionAsync \<in> set (snd (startMic s env)))"
proof (intro conjI impI)
  show "\<forall>pa. Call_new_PronunciationAssessmentConfig pa \<in> set (snd (startMic s env)) \<longrightarrow>
      pa = \<lparr>referenceText = [], gradingSystem = HundredMark, granularity = Phoneme,
             enableMiscue = False, enableProsodyAssessment = False\<rparr>"
    using startMic_configurations [of s env]
    by (simp add: new_PronunciationAssessmentConfig_def)
  show "\<forall>pa. Call_applyTo pa \<in> set (snd (startMic s env)) \<longrightarrow>
      pa = \<lparr>referenceText = [], gradingSystem = HundredMark, granularity = Phoneme,
             enableMiscue = False, enableProsodyAssessment = True\<rparr>"
    using startMic_configurations [of s env] by (simp add: build_pa_eq)
next
  assume started: "Call_startContinuousRecognitionAsync \<in> set (snd (startMic s env))"
  from startMic_started [OF started] obtain k g where kg:
    "VITE_AZURE_SPEECH_KEY env = Some k" "VITE_AZURE_SPEECH_REGION env = Some g"
    and run: "startMic s env =
             (s\<lparr>log := [], resultsRef := [],
                recognizerRef :=
                  Some (applyTo (build_pa env) (new_SpeechRecognizer (build_speechConfig k g)))\<rparr>,
              [Call_getUserMedia, Call_fromSubscription k g, Call_fromDefaultMicrophoneInput,
               Call_new_PronunciationAssessmentConfig
                 (new_PronunciationAssessmentConfig [] HundredMark Phoneme False)] @
              (if prosodyIsMethod env then [Call_enableProsodyAssessment] else []) @
              [Call_new_SpeechRecognizer (build_speechConfig k g), Call_applyTo (build_pa env),
               Call_startContinuousRecognitionAsync])"
    by blast
  show "\<exists>k g. VITE_AZURE_SPEECH_KEY env = Some k \<and> VITE_AZURE_SPEECH_REGION env = Some g \<and>
         snd (startMic s env) =
           [Call_getUserMedia, Call_fromSubscription k g, Call_fromDefaultMicrophoneInput,
            Call_new_PronunciationAssessmentConfig
              \<lparr>referenceText = [], gradingSystem = HundredMark, granularity = Phoneme,
               enableMiscue = False, enableProsodyAssessment = False\<rparr>] @
           (if prosodyIsMethod env then [Call_enableProsodyAssessment] else []) @
           [Call_new_SpeechRecognizer (build_speechConfig k g),
            Call_applyTo
              \<lparr>referenceText = [], gradingSystem = HundredMark, granularity = Phoneme,
               enableMiscue = False, enableProsodyAssessment = True\<rparr>,
            Call_startContinuousRecognitionAsync]"
    using kg run by (simp add: build_pa_eq new_PronunciationAssessmentConfig_def)
  show "map_option appliedAssessment (recognizerRef (fst (startMic s env))) =
        Some (Some \<lparr>referenceText = [], gradingSystem = HundredMark,
                granularity = Phoneme, enableMiscue = False, enableProsodyAssessment = True\<rparr>)"
    using run by (simp add: build_pa_eq applyTo_def new_SpeechRecognizer_def)
next
  assume "permission env \<and> truthy (VITE_AZURE_SPEECH_KEY env) \<and>
    truthy (VITE_AZURE_SPEECH_REGION env) \<and> vendor_fault env = None"
  then show "Call_startContinuousRecognitionAsync \<in> set (snd (startMic s env))"
    using startMic_starts [of env s] by blast
qed

text \<open>The theorem at an environment with permission, a key and a region, where the
  vendor's calls return.\<close>

theorem C5_witness:
  "permission env_ok \<and> vendor_fault env_ok = None \<and>
   snd (startMic (azure_init :: nat azure_state) env_ok) =
           [Call_getUserMedia, Call_fromSubscription (ascii ''k1'') (ascii ''koreacentral''),
            Call_fromDefaultMicrophoneInput,
            Call_new_PronunciationAssessmentConfig
              \<lparr>referenceText = [], gradingSystem = HundredMark, granularity = Phoneme,
               enableMiscue = False, enableProsodyAssessment = False\<rparr>,
            Call_new_SpeechRecognizer (build_speechConfig (ascii ''k1'') (ascii ''koreacentral'')),
            Call_applyTo
              \<lparr>referenceText = [], gradingSystem = HundredMark, granularity = Phoneme,
               enableMiscue = False, enableProsodyAssessment = True\<rparr>,
            Call_startContinuousRecognitionAsync]"
proof -
  have h1: "permission env_ok" by (simp add: env_ok_def)
  have h2: "VITE_AZURE_SPEECH_KEY env_ok = Some (ascii ''k1'')" by (simp add: env_ok_def)
  have h3: "truthy (VITE_AZURE_SPEECH_KEY env_ok)" by (simp add: env_ok_def ascii_def)
  have h4: "VITE_AZURE_SPEECH_REGION env_ok = Some (ascii ''koreacentral'')"
    by (simp add: env_ok_def)
  have h5: "truthy (VITE_AZURE_SPEECH_REGION env_ok)" by (simp add: env_ok_def ascii_def)
  have h6: "\<not> prosodyIsMethod env_ok" by (simp add: env_ok_def)
  have h7: "vendor_fault env_ok = None" by (simp add: env_ok_def)
  note c5 = C5_unscripted_assessment_config [of "azure_init :: nat azure_state" env_ok]
  from c5 h1 h3 h5 h7
  have "Call_startContinuousRecognitionAsync \<in> set (snd (startMic (azure_init :: nat azure_state) env_ok))"
    by blast
  with c5 obtain k g where "VITE_AZURE_SPEECH_KEY env_ok = Some k"
    "VITE_AZURE_SPEECH_REGION env_ok = Some g"
    "snd (startMic (azure_init :: nat azure_state) env_ok) =
           [Call_getUserMedia, Call_fromSubscription k g, Call_fromDefaultMicrophoneInput,
            Call_new_PronunciationAssessmentConfig
              \<lparr>referenceText = [], gradingSystem = HundredMark, granularity = Phoneme,
               enableMiscue = False, enableProsodyAssessment = False\<rparr>] @
           (if prosodyIsMethod env_ok then [Call_enableProsodyAssessment] else []) @
           [Call_new_SpeechRecognizer (build_speechConfig k g),
            Call_applyTo
              \<lparr>referenceText = [], gradingSystem = HundredMark, granularity = Phoneme,
               enableMiscue = False, enableProsodyAssessment = True\<rparr>,
            Call_startContinuousRecognitionAsync]"
    by blast
  with h1 h2 h4 h6 h7 show ?thesis by simp
qed

text \<open>
  Claim C8. When the permission request fails, \<open>startMic\<close> asks for the microphone
  once, alerts the user and returns: the state is as it was (no recognizer, nothing
  cleared, not listening any more than before) and no vendor call is made, so no
  recognizer is constructed and recognition is not started, and the request is not
  repeated.
\<close>

theorem C8_permission_denied:
  assumes "\<not> permission env"
  shows "startMic s env = (s, [Call_getUserMedia, Call_alert MSG_MIC_PERMISSION])"
  using assms by (rule startMic_denied)

text \<open>The theorem at the initial state with the permission refused.\<close>

theorem C8_witness:
  "\<not> permission env_denied \<and>
   startMic (azure_init :: nat azure_state) env_denied =
     (azure_init, [Call_getUserMedia, Call_alert MSG_MIC_PERMISSION])"
proof -
  have h: "\<not> permission env_denied" by (simp add: env_denied_def env_ok_def)
  from C8_permission_denied [OF h, of "azure_init :: nat azure_state"] h
  show ?thesis by simp
qed

text \<open>
  Claim C10. Whenever a call of \<open>startMic\<close> asks the vendor to start recognition, the
  buffer is empty and the log is cleared at that point, whatever they held before; and
  whatever happens to the widget afterwards, every candidate for selection is an
  utterance of a \<open>recognized\<close> event that came after that call, so none is left over
  from an earlier session.
\<close>

theorem C10_session_starts_fresh:
  assumes started: "Call_startContinuousRecognitionAsync \<in> set (snd (startMic s env))"
  shows "resultsRef (fst (startMic s env)) = [] \<and> log (fst (startMic s env)) = [] \<and>
         (\<forall>u \<in> set (candidates (azure_run str (fst (startMic s env)) evs)).
            Recognized u \<in> set evs)"
proof -
  from startMic_started [OF started] obtain k g where
    "startMic s env =
             (s\<lparr>log := [], resultsRef := [],
                recognizerRef :=
                  Some (applyTo (build_pa env) (new_SpeechRecognizer (build_speechConfig k g)))\<rparr>,
              [Call_getUserMedia, Call_fromSubscription k g, Call_fromDefaultMicrophoneInput,
               Call_new_PronunciationAssessmentConfig
                 (new_PronunciationAssessmentConfig [] HundredMark Phoneme False)] @
              (if prosodyIsMethod env then [Call_enableProsodyAssessment] else []) @
              [Call_new_SpeechRecognizer (build_speechConfig k g), Call_applyTo (build_pa env),
               Call_startContinuousRecognitionAsync])"
    by blast
  then have fresh: "resultsRef (fst (startMic s env)) = [] \<and> log (fst (startMic s env)) = []"
    by simp
  have "set (candidates (azure_run str (fst (startMic s env)) evs))
          \<subseteq> set (resultsRef (azure_run str (fst (startMic s env)) evs))"
    by (auto simp: candidates_def)
  also have "\<dots> \<subseteq> set (resultsRef (fst (startMic s env))) \<union> {r. Recognized r \<in> set evs}"
    by (rule resultsRef_run)
  finally show ?thesis using fresh by auto
qed

text \<open>The theorem at a state that still holds two utterances and a log line of an
  earlier session: after the start, one new utterance is the only candidate.\<close>

theorem C10_witness:
  "Call_startContinuousRecognitionAsync \<in> set (snd (startMic stale_state env_ok)) \<and>
   resultsRef stale_state = [utt ''hello there'' 90, utt ''hi'' 70] \<and>
   resultsRef (fst (startMic stale_state env_ok)) = [] \<and>
   log (fst (startMic stale_state env_ok)) = [] \<and>
   candidates (azure_run decimal (fst (startMic stale_state env_ok))
      [Started, Recognized (utt ''ok'' 60), Click_stopMic]) = [utt ''ok'' 60]"
proof -
  have started: "Call_startContinuousRecognitionAsync \<in> set (snd (startMic stale_state env_ok))"
    by (rule startMic_starts) (simp_all add: env_ok_def ascii_def)
  have old: "resultsRef stale_state = [utt ''hello there'' 90, utt ''hi'' 70]"
    by (simp add: stale_state_def two_utterances_def)
  have fresh: "resultsRef (fst (startMic stale_state env_ok)) = []"
              "log (fst (startMic stale_state env_ok)) = []"
    using C10_session_starts_fresh [OF started, of decimal "[]"] by simp_all
  have "fst (startMic_onStarted (fst (startMic stale_state env_ok))) =
          append_log MSG_STARTED ((fst (startMic stale_state env_ok))\<lparr>listening := True\<rparr>)"
    by (simp add: startMic_onStarted_def)
  then have "candidates (azure_run decimal (fst (startMic stale_state env_ok))
      [Started, Recognized (utt ''ok'' 60), Click_stopMic]) = [utt ''ok'' 60]"
    using fresh(1)
    by (simp add: azure_run_def on_recognized_def stopMic_def candidates_def utt_def ascii_def
        split: option.splits)
  with started old fresh show ?thesis by simp
qed

section \<open>The avatar widget: the dialogue cursor\<close>

lemma echoMessages_step [simp]: "echoMessages (klleon_step s we) = echoMessages s"
proof (cases we)
  case (Pair w ev)
  then show ?thesis
    by (cases ev)
       (auto simp: startSDK_click_def startSDK_afterTimeout_def startSDK_afterInit_def
          startSDK_failed_def stopSDK_def playNextEcho_def stopSpeech_def resetEchoIndex_def
          on_status_def on_chat_def Let_def
          split: outcome.splits if_splits prod.splits)
qed

lemma echoMessages_tsx_step [simp]: "echoMessages (klleon_tsx_step s we) = echoMessages s"
proof (cases we)
  case (Pair w ev)
  then show ?thesis
    by (cases ev)
       (auto simp: klleon_tsx_startSDK_click_def klleon_tsx_startSDK_afterInit_def
          klleon_tsx_stopSDK_click_def klleon_tsx_stopSDK_afterInit_def
          klleon_tsx_playNextEcho_def stopSpeech_def resetEchoIndex_def
          on_status_def on_chat_def Let_def
          split: outcome.splits if_splits prod.splits)
qed

lemma echoMessages_run [simp]: "echoMessages (klleon_run s evs) = echoMessages s"
  by (induction evs arbitrary: s) (simp_all add: klleon_run_def)

lemma echoMessages_tsx_run [simp]: "echoMessages (klleon_tsx_run s evs) = echoMessages s"
  by (induction evs arbitrary: s) (simp_all add: klleon_tsx_run_def)

text \<open>Only \<open>playNextEcho\<close> and \<open>resetEchoIndex\<close> write the cursor.\<close>

lemma cursor_step:
  "currentEchoIndex (klleon_step s we) =
     (case snd we of
        Click_playNextEcho \<Rightarrow> currentEchoIndex (fst (playNextEcho s (fst we)))
      | Click_resetEchoIndex \<Rightarrow> 0
      | _ \<Rightarrow> currentEchoIndex s)"
proof (cases we)
  case (Pair w ev)
  then show ?thesis
    by (cases ev)
       (auto simp: startSDK_click_def startSDK_afterTimeout_def startSDK_afterInit_def
          startSDK_failed_def stopSDK_def stopSpeech_def resetEchoIndex_def
          on_status_def on_chat_def Let_def
          split: outcome.splits if_splits prod.splits)
qed

lemma cursor_tsx_step:
  "currentEchoIndex (klleon_tsx_step s we) =
     (case snd we of
        Click_playNextEcho \<Rightarrow> currentEchoIndex (fst (klleon_tsx_playNextEcho s (fst we)))
      | Click_resetEchoIndex \<Rightarrow> 0
      | _ \<Rightarrow> currentEchoIndex s)"
proof (cases we)
  case (Pair w ev)
  then show ?thesis
    by (cases ev)
       (auto simp: klleon_tsx_startSDK_click_def klleon_tsx_startSDK_afterInit_def
          klleon_tsx_stopSDK_click_def klleon_tsx_stopSDK_afterInit_def
          stopSpeech_def resetEchoIndex_def
          on_status_def on_chat_def Let_def
          split: outcome.splits if_splits prod.splits)
qed

lemma playNextEcho_cursor:
  "currentEchoIndex (fst (playNextEcho s w)) =
     (if isSDKInitialized s \<and> currentEchoIndex s < length (echoMessages s) \<and>
         echo_outcome w = Returns
      then currentEchoIndex s + 1 else currentEchoIndex s)"
  by (auto simp: playNextEcho_def Let_def split: outcome.splits)

lemma klleon_tsx_playNextEcho_cursor:
  "currentEchoIndex (fst (klleon_tsx_playNextEcho s w)) =
     (if isSDKInitialized s \<and> 0 < length (echoMessages s) \<and> echo_outcome w = Returns
      then (currentEchoIndex s + 1) mod length (echoMessages s) else currentEchoIndex s)"
  by (auto simp: klleon_tsx_playNextEcho_def Let_def split: outcome.splits)

lemma cursor_bound_step:
  "currentEchoIndex s \<le> length (echoMessages s) \<Longrightarrow>
   currentEchoIndex (klleon_step s we) \<le> length (echoMessages (klleon_step s we))"
  by (cases "snd we") (simp_all add: cursor_step playNextEcho_cursor)

lemma cursor_in_range_step:
  "cursor_in_range s \<Longrightarrow> cursor_in_range (klleon_tsx_step s we)"
  by (cases "snd we")
     (auto simp: cursor_in_range_def cursor_tsx_step klleon_tsx_playNextEcho_cursor)

lemma cursor_bound_run:
  "currentEchoIndex s \<le> length (echoMessages s) \<Longrightarrow>
   currentEchoIndex (klleon_run s evs) \<le> length (echoMessages (klleon_run s evs))"
proof (induction evs arbitrary: s)
  case Nil
  then show ?case by (simp add: klleon_run_def)
next
  case (Cons e es)
  from Cons.prems
  have "currentEchoIndex (klleon_step s e) \<le> length (echoMessages (klleon_step s e))"
    by (rule cursor_bound_step)
  then have "currentEchoIndex (klleon_run (klleon_step s e) es)
               \<le> length (echoMessages (klleon_run (klleon_step s e) es))"
    by (rule Cons.IH)
  then show ?case by (simp add: klleon_run_def)
qed

lemma cursor_in_range_run:
  "cursor_in_range s \<Longrightarrow> cursor_in_range (klleon_tsx_run s evs)"
proof (induction evs arbitrary: s)
  case Nil
  then show ?case by (simp add: klleon_tsx_run_def)
next
  case (Cons e es)
  from Cons.prems have "cursor_in_range (klleon_tsx_step s e)"
    by (rule cursor_in_range_step)
  then have "cursor_in_range (klleon_tsx_run (klleon_tsx_step s e) es)"
    by (rule Cons.IH)
  then show ?case by (simp add: klleon_tsx_run_def)
qed

text \<open>
  Claim C2. Starting from the initial state (cursor zero), after any sequence of
  events of the widget, \<open>playNextEcho\<close> and \<open>resetEchoIndex\<close> among them, the cursor
  is at most the length of the message list. This holds for both copies of the
  widget.
\<close>

theorem C2_cursor_never_exceeds_length:
  "currentEchoIndex (klleon_run (klleon_init msgs) evs) \<le> length msgs \<and>
   currentEchoIndex (klleon_tsx_run (klleon_tsx_init msgs) evs') \<le> length msgs"
proof
  have "currentEchoIndex (klleon_init msgs) \<le> length (echoMessages (klleon_init msgs))"
    by (simp add: klleon_init_def)
  from cursor_bound_run [OF this, of evs]
  show "currentEchoIndex (klleon_run (klleon_init msgs) evs) \<le> length msgs"
    by (simp add: klleon_init_def)
next
  have "cursor_in_range (klleon_tsx_init msgs)"
    by (simp add: cursor_in_range_def klleon_tsx_init_def)
  from cursor_in_range_run [OF this, of evs']
  show "currentEchoIndex (klleon_tsx_run (klleon_tsx_init msgs) evs') \<le> length msgs"
    by (auto simp: cursor_in_range_def klleon_tsx_init_def)
qed

text \<open>The theorem at a list of two lines, after starting the SDK and pressing the
  read button three times.\<close>

theorem C2_witness:
  "currentEchoIndex (klleon_run (klleon_init two_lines) start_and_read) \<le> length two_lines \<and>
   currentEchoIndex (klleon_tsx_run (klleon_tsx_init two_lines) start_and_read)
     \<le> length two_lines"
  using C2_cursor_never_exceeds_length [of two_lines start_and_read start_and_read] .

text \<open>
  Claim C7. Every event of the widget leaves the cursor where it is, moves it one
  step forward, or sets it to zero; so a step never moves it to a smaller value other
  than zero. For the second copy this holds in every state; for \<open>klleon.tsx\<close>, whose
  cursor wraps around to zero after the last line, in every state reached from the
  initial one.
\<close>

theorem C7_cursor_advances_or_resets:
  "(currentEchoIndex (klleon_step s we) = currentEchoIndex s + 1 \<or>
    currentEchoIndex (klleon_step s we) = currentEchoIndex s \<or>
    currentEchoIndex (klleon_step s we) = 0) \<and>
   (currentEchoIndex (klleon_tsx_step (klleon_tsx_run (klleon_tsx_init msgs) evs) we) =
      currentEchoIndex (klleon_tsx_run (klleon_tsx_init msgs) evs) + 1 \<or>
    currentEchoIndex (klleon_tsx_step (klleon_tsx_run (klleon_tsx_init msgs) evs) we) =
      currentEchoIndex (klleon_tsx_run (klleon_tsx_init msgs) evs) \<or>
    currentEchoIndex (klleon_tsx_step (klleon_tsx_run (klleon_tsx_init msgs) evs) we) = 0)"
proof
  show "currentEchoIndex (klleon_step s we) = currentEchoIndex s + 1 \<or>
    currentEchoIndex (klleon_step s we) = currentEchoIndex s \<or>
    currentEchoIndex (klleon_step s we) = 0"
    by (cases "snd we") (simp_all add: cursor_step playNextEcho_cursor)
next
  let ?s = "klleon_tsx_run (klleon_tsx_init msgs) evs"
  have "cursor_in_range (klleon_tsx_init msgs)"
    by (simp add: cursor_in_range_def klleon_tsx_init_def)
  then have inv: "cursor_in_range ?s" by (rule cursor_in_range_run)
  have wrap: "(currentEchoIndex ?s + 1) mod length (echoMessages ?s) = currentEchoIndex ?s + 1 \<or>
        (currentEchoIndex ?s + 1) mod length (echoMessages ?s) = 0"
    if "0 < length (echoMessages ?s)"
  proof -
    from inv that have "currentEchoIndex ?s + 1 \<le> length (echoMessages ?s)"
      by (auto simp: cursor_in_range_def Suc_le_eq)
    then show ?thesis
      by (cases "currentEchoIndex ?s + 1 = length (echoMessages ?s)") simp_all
  qed
  show "currentEchoIndex (klleon_tsx_step ?s we) = currentEchoIndex ?s + 1 \<or>
    currentEchoIndex (klleon_tsx_step ?s we) = currentEchoIndex ?s \<or>
    currentEchoIndex (klleon_tsx_step ?s we) = 0"
  proof (cases "snd we")
    case Click_playNextEcho
    then show ?thesis using wrap
      by (auto simp: cursor_tsx_step klleon_tsx_playNextEcho_cursor simp del: echoMessages_tsx_run)
  qed (simp_all add: cursor_tsx_step)
qed

text \<open>The theorem at the reset button, pressed after the three reads.\<close>

theorem C7_witness:
  "currentEchoIndex (klleon_step (klleon_run (klleon_init two_lines) start_and_read)
      (world_ok, Click_resetEchoIndex)) = 0 \<and>
   currentEchoIndex (klleon_tsx_step (klleon_tsx_run (klleon_tsx_init two_lines) start_and_read)
      (world_ok, Click_resetEchoIndex)) = 0"
  using C7_cursor_advances_or_resets
    [of "klleon_run (klleon_init two_lines) start_and_read" "(world_ok, Click_resetEchoIndex)"
        two_lines start_and_read]
  by (simp add: resetEchoIndex_def)

text \<open>The runs of the two witnesses above, evaluated: the second copy stops at the
  length of the list, \<open>klleon.tsx\<close> has wrapped around.\<close>

lemma start_and_read_cursor:
  "currentEchoIndex (klleon_run (klleon_init two_lines) start_and_read) = 2 \<and>
   currentEchoIndex (klleon_tsx_run (klleon_tsx_init two_lines) start_and_read) = 1"
  by (simp add: klleon_run_def klleon_tsx_run_def start_and_read_def two_lines_def
      klleon_init_def klleon_tsx_init_def world_ok_def
      startSDK_click_def startSDK_afterTimeout_def startSDK_afterInit_def
      klleon_tsx_startSDK_click_def klleon_tsx_startSDK_afterInit_def
      playNextEcho_def klleon_tsx_playNextEcho_def ascii_def at_index_def)

section \<open>The avatar widget: starting the SDK\<close>

text \<open>The guard of the second copy: while it holds, a click does nothing at all.\<close>

lemma startSDK_guard:
  "isInitializing s \<or> isSDKInitialized s \<Longrightarrow>
   startSDK_click s w = (s, [], Finished) \<and> startSDK s w = (s, [])"
  by (auto simp: startSDK_def startSDK_click_def)

text \<open>And it holds for as long as the run of \<open>startSDK\<close> is suspended.\<close>

lemma startSDK_click_pending:
  "startSDK_click s w = (s', cs, AwaitTimeout) \<Longrightarrow> isInitializing s'"
  by (auto simp: startSDK_click_def startSDK_failed_def Let_def
      split: if_splits outcome.splits)

lemma startSDK_afterTimeout_pending:
  "startSDK_afterTimeout s w = (s', cs, AwaitInit) \<Longrightarrow> s' = s"
  by (auto simp: startSDK_afterTimeout_def startSDK_failed_def Let_def
      split: if_splits outcome.splits)

text \<open>
  Claim C3, at \<open>startSDK\<close> of \<open>klleon.tsx\<close>, which has no guard. A click calls
  \<open>init\<close> and leaves the state as it was, so a second click while the first \<open>init\<close>
  is still pending calls \<open>init\<close> again; and so does a call made when the SDK is
  already initialized.
\<close>

theorem C3_klleon_tsx_startSDK_unguarded:
  "klleon_tsx_startSDK_click (klleon_tsx_init []) world_ok =
     (klleon_tsx_init [],
      [K_onStatusEvent, K_onChatEvent, K_init (Some (ascii ''sdk-key'')) (Some (ascii ''avatar-1''))],
      AwaitInit) \<and>
   klleon_tsx_startSDK_click (fst (klleon_tsx_startSDK_click (klleon_tsx_init []) world_ok)) world_ok =
     (klleon_tsx_init [],
      [K_onStatusEvent, K_onChatEvent, K_init (Some (ascii ''sdk-key'')) (Some (ascii ''avatar-1''))],
      AwaitInit) \<and>
   klleon_tsx_startSDK_click ((klleon_tsx_init [])\<lparr>isSDKInitialized := True\<rparr>) world_ok =
     ((klleon_tsx_init [])\<lparr>isSDKInitialized := True\<rparr>,
      [K_onStatusEvent, K_onChatEvent, K_init (Some (ascii ''sdk-key'')) (Some (ascii ''avatar-1''))],
      AwaitInit)"
  by (simp add: klleon_tsx_startSDK_click_def world_ok_def)

text \<open>\<open>startSDK\<close> of \<open>klleon.tsx\<close> does not look at the two variables either: it
  passes them to \<open>init\<close> as they are, and marks the SDK initialized when \<open>init\<close>
  resolves.\<close>

lemma klleon_tsx_startSDK_no_check:
  "onStatusEvent_outcome w = Returns \<Longrightarrow> onChatEvent_outcome w = Returns \<Longrightarrow>
   klleon_tsx_startSDK_click s w =
     (s, [K_onStatusEvent, K_onChatEvent, K_init (SDK_KEY w) (AVATAR_ID w)], AwaitInit)"
  by (simp add: klleon_tsx_startSDK_click_def)

section \<open>Missing configuration\<close>

lemma startSDK_missing_no_init:
  assumes "\<not> truthy (SDK_KEY w) \<or> \<not> truthy (AVATAR_ID w)"
  shows "isSDKInitialized (fst (startSDK ks w)) = isSDKInitialized ks \<and>
         filter is_init (snd (startSDK ks w)) = [] \<and>
         filter user_visible (snd (startSDK ks w)) = []"
  using assms
  by (auto simp: startSDK_def startSDK_click_def startSDK_afterTimeout_def startSDK_failed_def
      Let_def split: outcome.splits)

lemma startSDK_missing_reported:
  assumes "\<not> truthy (SDK_KEY w) \<or> \<not> truthy (AVATAR_ID w)"
    and "\<not> isInitializing ks" and "\<not> isSDKInitialized ks"
    and "destroy_outcome w = Returns" and "onStatusEvent_outcome w = Returns"
    and "onChatEvent_outcome w = Returns"
  shows "startSDK ks w =
           (ks\<lparr>status := ascii ''IDLE''\<rparr>,
            (if has_destroy w then [K_destroy] else []) @
            [K_setTimeout 100, K_onStatusEvent, K_onChatEvent,
             K_console_error LOG_INIT_FAIL MSG_KEY_MISSING])"
  using assms
  by (auto simp: startSDK_def startSDK_click_def startSDK_afterTimeout_def startSDK_failed_def
      Let_def)

text \<open>
  Claim C4 as stated fails for \<open>startSDK\<close>: with the SDK key missing, a run of
  \<open>startSDK\<close> from the initial state ends in the initial state again, so the page
  shows what it showed before, and its only report of the failure is a
  \<open>console.error\<close>; it raises no alert.
\<close>

theorem C4_startSDK_console_only:
  "startSDK (klleon_init []) world_nokey =
     (klleon_init [],
      [K_destroy, K_setTimeout 100, K_onStatusEvent, K_onChatEvent,
       K_console_error LOG_INIT_FAIL MSG_KEY_MISSING]) \<and>
   filter user_visible (snd (startSDK (klleon_init []) world_nokey)) = []"
  by (simp add: startSDK_def startSDK_click_def startSDK_afterTimeout_def startSDK_failed_def
      world_nokey_def world_ok_def klleon_init_def)

text \<open>
  Claim C4, amended. When the speech key or region is missing (absent or empty),
  \<open>startMic\<close> ends with an error the user sees and starts nothing: with permission
  it writes the error line into the cleared on-screen log, without permission it
  raises the microphone alert; either way it makes no vendor call, and the recognizer
  reference and the listening flag are as before. When the SDK key or the avatar id
  is missing, \<open>startSDK\<close> of the second copy does not call \<open>init\<close>, does not change
  \<open>isSDKInitialized\<close> and raises no alert; when the run gets as far as the check, it
  reports the error with \<open>console.error\<close>, sets the status to \<open>IDLE\<close> and clears
  \<open>isInitializing\<close>.
\<close>

theorem C4_missing_configuration:
  "(\<not> truthy (VITE_AZURE_SPEECH_KEY env) \<or> \<not> truthy (VITE_AZURE_SPEECH_REGION env) \<longrightarrow>
      startMic s env =
        (if permission env
         then (s\<lparr>log := ascii ''Error: '' @ MSG_ENV @ nl, resultsRef := []\<rparr>, [Call_getUserMedia])
         else (s, [Call_getUserMedia, Call_alert MSG_MIC_PERMISSION])) \<and>
      recognizerRef (fst (startMic s env)) = recognizerRef s \<and>
      listening (fst (startMic s env)) = listening s) \<and>
   (\<not> truthy (SDK_KEY w) \<or> \<not> truthy (AVATAR_ID w) \<longrightarrow>
      isSDKInitialized (fst (startSDK ks w)) = isSDKInitialized ks \<and>
      filter is_init (snd (startSDK ks w)) = [] \<and>
      filter user_visible (snd (startSDK ks w)) = [] \<and>
      (\<not> isInitializing ks \<and> \<not> isSDKInitialized ks \<and> destroy_outcome w = Returns \<and>
       onStatusEvent_outcome w = Returns \<and> onChatEvent_outcome w = Returns \<longrightarrow>
         startSDK ks w =
           (ks\<lparr>status := ascii ''IDLE''\<rparr>,
            (if has_destroy w then [K_destroy] else []) @
            [K_setTimeout 100, K_onStatusEvent, K_onChatEvent,
             K_console_error LOG_INIT_FAIL MSG_KEY_MISSING])))"
proof (intro conjI impI)
  assume a: "\<not> truthy (VITE_AZURE_SPEECH_KEY env) \<or> \<not> truthy (VITE_AZURE_SPEECH_REGION env)"
  show m: "startMic s env =
        (if permission env
         then (s\<lparr>log := ascii ''Error: '' @ MSG_ENV @ nl, resultsRef := []\<rparr>, [Call_getUserMedia])
         else (s, [Call_getUserMedia, Call_alert MSG_MIC_PERMISSION]))"
    using a by (rule startMic_missing)
  show "recognizerRef (fst (startMic s env)) = recognizerRef s" by (simp add: m)
  show "listening (fst (startMic s env)) = listening s" by (simp add: m)
next
  assume b: "\<not> truthy (SDK_KEY w) \<or> \<not> truthy (AVATAR_ID w)"
  show "isSDKInitialized (fst (startSDK ks w)) = isSDKInitialized ks"
    using startSDK_missing_no_init [OF b] by blast
  show "filter is_init (snd (startSDK ks w)) = []"
    using startSDK_missing_no_init [OF b] by blast
  show "filter user_visible (snd (startSDK ks w)) = []"
    using startSDK_missing_no_init [OF b] by blast
next
  assume b: "\<not> truthy (SDK_KEY w) \<or> \<not> truthy (AVATAR_ID w)"
    and c: "\<not> isInitializing ks \<and> \<not> isSDKInitialized ks \<and> destroy_outcome w = Returns \<and>
       onStatusEvent_outcome w = Returns \<and> onChatEvent_outcome w = Returns"
  then show "startSDK ks w =
           (ks\<lparr>status := ascii ''IDLE''\<rparr>,
            (if has_destroy w then [K_destroy] else []) @
            [K_setTimeout 100, K_onStatusEvent, K_onChatEvent,
             K_console_error LOG_INIT_FAIL MSG_KEY_MISSING])"
    using startSDK_missing_reported [of w ks] by blast
qed

text \<open>The theorem at a speech environment without a region, and at a world without
  the SDK key, after the SDK had been stopped with status \<open>READY\<close> left on screen.\<close>

theorem C4_witness:
  "\<not> truthy (VITE_AZURE_SPEECH_REGION env_noregion) \<and>
   startMic stale_state env_noregion =
     (stale_state\<lparr>log := ascii ''Error: '' @ MSG_ENV @ nl, resultsRef := []\<rparr>,
      [Call_getUserMedia]) \<and>
   \<not> truthy (SDK_KEY world_nokey) \<and>
   startSDK ((klleon_init two_lines)\<lparr>status := ascii ''READY''\<rparr>) world_nokey =
     (klleon_init two_lines,
      [K_destroy, K_setTimeout 100, K_onStatusEvent, K_onChatEvent,
       K_console_error LOG_INIT_FAIL MSG_KEY_MISSING])"
proof -
  have h1: "\<not> truthy (VITE_AZURE_SPEECH_REGION env_noregion)"
    by (simp add: env_noregion_def env_ok_def)
  have h2: "permission env_noregion"
    by (simp add: env_noregion_def env_ok_def)
  have h3: "\<not> truthy (SDK_KEY world_nokey)"
    by (simp add: world_nokey_def world_ok_def)
  have h4: "\<not> isInitializing ((klleon_init two_lines)\<lparr>status := ascii ''READY''\<rparr>) \<and>
      \<not> isSDKInitialized ((klleon_init two_lines)\<lparr>status := ascii ''READY''\<rparr>) \<and>
      destroy_outcome world_nokey = Returns \<and> onStatusEvent_outcome world_nokey = Returns \<and>
      onChatEvent_outcome world_nokey = Returns \<and> has_destroy world_nokey"
    by (simp add: klleon_init_def world_nokey_def world_ok_def)
  from C4_missing_configuration
    [of env_noregion stale_state world_nokey "(klleon_init two_lines)\<lparr>status := ascii ''READY''\<rparr>"]
    h1 h2 h3 h4
  show ?thesis by (simp add: klleon_init_def)
qed

end
